theory Spec2Isabelle
  imports Main "HOL-Library.Monad_Syntax" "HOL-Library.Sublist"
begin

section \<open>JSON values, file text and errors\<close>

text \<open>
  The two stores keep JSON documents.  A JSON value is what \<^verbatim>\<open>JSON.parse\<close> returns; an
  object is the list of its members.  Numbers are carried as opaque data (no arithmetic is
  done on them anywhere in the storage layer), so integers stand for them.
\<close>

datatype json =
    JNull
  | JBool bool
  | JNum int
  | JStr string
  | JArr "json list"
  | JObj "(string \<times> json) list"

text \<open>
  The text of a file is represented by what \<^verbatim>\<open>JSON.parse\<close> makes of it: \<open>Doc j\<close> is any text
  that parses to the value \<open>j\<close> (whitespace and indentation are not distinguished),
  \<open>Junk s\<close> is a text \<open>s\<close> that \<^verbatim>\<open>JSON.parse\<close> rejects.
\<close>

datatype content = Doc json | Junk string

text \<open>
  Errors that the storage layer can raise: the \<^verbatim>\<open>SyntaxError\<close> of \<^verbatim>\<open>JSON.parse\<close>, an error of
  the \<^verbatim>\<open>node:fs\<close> calls (with its code, such as \<^verbatim>\<open>ENOSPC\<close>), and the \<^verbatim>\<open>new Error(message)\<close>
  of \<^verbatim>\<open>switchProvider\<close>.  \<open>OutsideDeclaredType\<close> marks the one place where the model stops:
  the typed operations receive a parsed value that does not have the TypeScript type
  \<^verbatim>\<open>ProvidersConfig\<close> (the cast in \<^verbatim>\<open>loadProviders\<close> is unchecked).
\<close>

datatype error =
    SyntaxError
  | IOError string
  | Error string
  | OutsideDeclaredType json

text \<open>JavaScript truthiness of a parsed value, as tested by \<^verbatim>\<open>if (!liveSettings)\<close>.\<close>

fun truthy :: "json \<Rightarrow> bool" where
  "truthy JNull = False"
| "truthy (JBool b) = b"
| "truthy (JNum n) = (n \<noteq> 0)"
| "truthy (JStr s) = (s \<noteq> [])"
| "truthy (JArr _) = True"
| "truthy (JObj _) = True"

text \<open>Truthiness of an optional string, as tested by \<^verbatim>\<open>if (!config.currentProviderId)\<close>.\<close>

fun truthy_string :: "string option \<Rightarrow> bool" where
  "truthy_string None = False"
| "truthy_string (Some s) = (s \<noteq> [])"

section \<open>The data model of \<^verbatim>\<open>types.ts\<close>\<close>

datatype category = Subscription | Api

text \<open>\<^verbatim>\<open>Omit<Provider, "id" | "createdAt">\<close>, the argument of \<^verbatim>\<open>addProvider\<close>.\<close>

record ProviderFields =
  name :: string
  settingsConfig :: json
  description :: "string option"
  category :: "category option"
  icon :: "string option"
  iconColor :: "string option"

text \<open>\<^verbatim>\<open>Provider\<close>; the field \<^verbatim>\<open>id\<close> is written \<open>id'\<close>.\<close>

record Provider = ProviderFields +
  id' :: string
  createdAt :: "int option"

record ProvidersConfig =
  providers :: "Provider list"
  currentProviderId :: "string option"


subsection \<open>Typed values as JSON\<close>

text \<open>
  \<^verbatim>\<open>JSON.stringify\<close> of a typed object: one member per property, a property whose value is
  \<^verbatim>\<open>undefined\<close> is left out.
\<close>

definition optional_member :: "string \<Rightarrow> ('a \<Rightarrow> json) \<Rightarrow> 'a option \<Rightarrow> (string \<times> json) list" where
  "optional_member k enc v = (case v of None \<Rightarrow> [] | Some x \<Rightarrow> [(k, enc x)])"

fun category_json :: "category \<Rightarrow> json" where
  "category_json Subscription = JStr ''subscription''"
| "category_json Api = JStr ''api''"

definition Provider_json :: "Provider \<Rightarrow> json" where
  "Provider_json p = JObj
     ([(''id'', JStr (id' p)), (''name'', JStr (name p)), (''settingsConfig'', settingsConfig p)]
      @ optional_member ''description'' JStr (description p)
      @ optional_member ''category'' category_json (category p)
      @ optional_member ''createdAt'' JNum (createdAt p)
      @ optional_member ''icon'' JStr (icon p)
      @ optional_member ''iconColor'' JStr (iconColor p))"

definition ProvidersConfig_json :: "ProvidersConfig \<Rightarrow> json" where
  "ProvidersConfig_json c = JObj
     ((''providers'', JArr (map Provider_json (providers c)))
      # optional_member ''currentProviderId'' JStr (currentProviderId c))"

text \<open>
  The typed reading of a parsed value: \<open>as_ProvidersConfig j = Some c\<close> when \<open>j\<close> is an
  object with exactly the declared properties, each of its declared type (the order of the
  members does not matter), and \<open>None\<close> when \<open>j\<close> is not of the declared shape.
\<close>

fun as_string :: "json \<Rightarrow> string option" where
  "as_string (JStr s) = Some s"
| "as_string _ = None"

fun as_number :: "json \<Rightarrow> int option" where
  "as_number (JNum n) = Some n"
| "as_number _ = None"

fun as_category :: "json \<Rightarrow> category option" where
  "as_category (JStr s) =
     (if s = ''subscription'' then Some Subscription else if s = ''api'' then Some Api else None)"
| "as_category _ = None"

fun as_optional :: "(json \<Rightarrow> 'a option) \<Rightarrow> json option \<Rightarrow> 'a option option" where
  "as_optional f None = Some None"
| "as_optional f (Some j) = map_option Some (f j)"

definition declared_members :: "string list \<Rightarrow> (string \<times> json) list \<Rightarrow> bool" where
  "declared_members ks ms = (distinct (map fst ms) \<and> list_all (\<lambda>k. k \<in> set ks) (map fst ms))"

definition as_Provider :: "json \<Rightarrow> Provider option" where
  "as_Provider j = (case j of
      JObj ms \<Rightarrow>
        if declared_members [''id'', ''name'', ''settingsConfig'', ''description'', ''category'',
             ''createdAt'', ''icon'', ''iconColor''] ms
        then do {
          i \<leftarrow> Option.bind (map_of ms ''id'') as_string;
          n \<leftarrow> Option.bind (map_of ms ''name'') as_string;
          sc \<leftarrow> map_of ms ''settingsConfig'';
          d \<leftarrow> as_optional as_string (map_of ms ''description'');
          c \<leftarrow> as_optional as_category (map_of ms ''category'');
          t \<leftarrow> as_optional as_number (map_of ms ''createdAt'');
          ic \<leftarrow> as_optional as_string (map_of ms ''icon'');
          icc \<leftarrow> as_optional as_string (map_of ms ''iconColor'');
          Some \<lparr>name = n, settingsConfig = sc, description = d, category = c, icon = ic,
                 iconColor = icc, id' = i, createdAt = t\<rparr>
        }
        else None
    | _ \<Rightarrow> None)"

definition as_ProvidersConfig :: "json \<Rightarrow> ProvidersConfig option" where
  "as_ProvidersConfig j = (case j of
      JObj ms \<Rightarrow>
        if declared_members [''providers'', ''currentProviderId''] ms
        then (case map_of ms ''providers'' of
            Some (JArr ps) \<Rightarrow> do {
              ps' \<leftarrow> those (map as_Provider ps);
              cur \<leftarrow> as_optional as_string (map_of ms ''currentProviderId'');
              Some \<lparr>providers = ps', currentProviderId = cur\<rparr>
            }
          | _ \<Rightarrow> None)
        else None
    | _ \<Rightarrow> None)"

text \<open>The documented shape of the live settings: a JSON object.\<close>

fun is_ClaudeSettings :: "json \<Rightarrow> bool" where
  "is_ClaudeSettings (JObj _) = True"
| "is_ClaudeSettings _ = False"

section \<open>The environment: file system, clock, random numbers, I/O failures\<close>

text \<open>
  A path is the list of its components; \<^verbatim>\<open>homedir()\<close> is written \<open>~\<close>.
\<close>

type_synonym path = "string list"

definition homedir :: path where
  "homedir = [''~'']"

definition join :: "path \<Rightarrow> string \<Rightarrow> path" where
  "join dir base = dir @ [base]"

definition dirname :: "path \<Rightarrow> path" where
  "dirname p = butlast p"

text \<open>
  What the environment answers to a call of \<^verbatim>\<open>node:fs/promises\<close>: the call is carried out,
  or it fails with an error and changes nothing, or (for \<^verbatim>\<open>writeFile\<close>) it fails after part
  of the data reached the file.
\<close>

datatype outcome = Done | Failed error | Torn error content

fun failure :: "outcome \<Rightarrow> error option" where
  "failure Done = None"
| "failure (Failed e) = Some e"
| "failure (Torn e _) = Some e"

text \<open>The calls that change the file system, recorded in the order they are made.\<close>

datatype event =
    Mkdir path
  | WriteFile path content
  | Rename path path
  | Unlink path

text \<open>
  The state of the world around the process.  \<open>files\<close> and \<open>dirs\<close> are the file system;
  \<open>clock\<close> lists the readings of \<^verbatim>\<open>Date.now()\<close> (\<open>ticks\<close> counts the readings taken),
  \<open>random36\<close> lists the values of \<^verbatim>\<open>Math.random().toString(36).slice(2, 9)\<close> (\<open>draws\<close>
  counts them), \<open>faults\<close> lists the outcomes of the fallible file-system calls (\<open>calls\<close>
  counts them), and \<open>trace\<close> records the mutating calls made so far.
\<close>

record world =
  files :: "path \<Rightarrow> content option"
  dirs :: "path set"
  clock :: "nat \<Rightarrow> nat"
  ticks :: nat
  random36 :: "nat \<Rightarrow> string"
  draws :: nat
  faults :: "nat \<Rightarrow> outcome"
  calls :: nat
  trace :: "event list"

text \<open>
  An asynchronous function of the source is a function from the world to its result (an
  error when it throws) and the world it leaves behind.  \<open>await m f\<close> runs \<open>m\<close> and
  continues with \<open>f\<close> on its value, or stops with its error.
\<close>

type_synonym 'a io = "world \<Rightarrow> (error + 'a) \<times> world"

definition return :: "'a \<Rightarrow> 'a io" where
  "return x w = (Inr x, w)"

definition throw :: "error \<Rightarrow> 'a io" where
  "throw e w = (Inl e, w)"

definition await :: "'a io \<Rightarrow> ('a \<Rightarrow> 'b io) \<Rightarrow> 'b io" where
  "await m f w = (case m w of (Inl e, w') \<Rightarrow> (Inl e, w') | (Inr x, w') \<Rightarrow> f x w')"

definition try_catch :: "'a io \<Rightarrow> (error \<Rightarrow> 'a io) \<Rightarrow> 'a io" where
  "try_catch m h w = (case m w of (Inl e, w') \<Rightarrow> h e w' | (Inr x, w') \<Rightarrow> (Inr x, w'))"

subsection \<open>The primitives of the platform\<close>

definition Date_now :: "nat io" where
  "Date_now w = (Inr (clock w (ticks w)), w\<lparr>ticks := Suc (ticks w)\<rparr>)"

definition Math_random36 :: "string io" where
  "Math_random36 w = (Inr (random36 w (draws w)), w\<lparr>draws := Suc (draws w)\<rparr>)"

definition next_outcome :: "world \<Rightarrow> outcome \<times> world" where
  "next_outcome w = (faults w (calls w), w\<lparr>calls := Suc (calls w)\<rparr>)"

definition existsSync :: "path \<Rightarrow> world \<Rightarrow> bool" where
  "existsSync p w = (files w p \<noteq> None \<or> p \<in> dirs w)"

text \<open>\<^verbatim>\<open>mkdir(p, { recursive: true })\<close> creates \<open>p\<close> and the directories above it.\<close>

definition mkdir :: "path \<Rightarrow> unit io" where
  "mkdir p w =
     (case next_outcome (w\<lparr>trace := trace w @ [Mkdir p]\<rparr>) of
        (Done, w1) \<Rightarrow> (Inr (), w1\<lparr>dirs := dirs w1 \<union> set (prefixes p)\<rparr>)
      | (Failed e, w1) \<Rightarrow> (Inl e, w1)
      | (Torn e _, w1) \<Rightarrow> (Inl e, w1))"

definition readFile :: "path \<Rightarrow> content io" where
  "readFile p w =
     (case next_outcome w of
        (Done, w1) \<Rightarrow>
          (case files w1 p of
             None \<Rightarrow> (Inl (IOError ''ENOENT''), w1)
           | Some c \<Rightarrow> (Inr c, w1))
      | (Failed e, w1) \<Rightarrow> (Inl e, w1)
      | (Torn e _, w1) \<Rightarrow> (Inl e, w1))"

definition writeFile :: "path \<Rightarrow> content \<Rightarrow> unit io" where
  "writeFile p data w =
     (case next_outcome (w\<lparr>trace := trace w @ [WriteFile p data]\<rparr>) of
        (Done, w1) \<Rightarrow> (Inr (), w1\<lparr>files := (files w1)(p \<mapsto> data)\<rparr>)
      | (Failed e, w1) \<Rightarrow> (Inl e, w1)
      | (Torn e part, w1) \<Rightarrow> (Inl e, w1\<lparr>files := (files w1)(p \<mapsto> part)\<rparr>))"

text \<open>\<^verbatim>\<open>rename\<close> replaces the target in one step, or fails and changes nothing.\<close>

definition rename :: "path \<Rightarrow> path \<Rightarrow> unit io" where
  "rename src dst w =
     (case next_outcome (w\<lparr>trace := trace w @ [Rename src dst]\<rparr>) of
        (Done, w1) \<Rightarrow>
          (case files w1 src of
             None \<Rightarrow> (Inl (IOError ''ENOENT''), w1)
           | Some c \<Rightarrow> (Inr (), w1\<lparr>files := (files w1)(src := None, dst \<mapsto> c)\<rparr>))
      | (Failed e, w1) \<Rightarrow> (Inl e, w1)
      | (Torn e _, w1) \<Rightarrow> (Inl e, w1))"

definition unlink :: "path \<Rightarrow> unit io" where
  "unlink p w =
     (case next_outcome (w\<lparr>trace := trace w @ [Unlink p]\<rparr>) of
        (Done, w1) \<Rightarrow>
          (case files w1 p of
             None \<Rightarrow> (Inl (IOError ''ENOENT''), w1)
           | Some _ \<Rightarrow> (Inr (), w1\<lparr>files := (files w1)(p := None)\<rparr>))
      | (Failed e, w1) \<Rightarrow> (Inl e, w1)
      | (Torn e _, w1) \<Rightarrow> (Inl e, w1))"

definition JSON_parse :: "content \<Rightarrow> json io" where
  "JSON_parse c = (case c of Doc j \<Rightarrow> return j | Junk _ \<Rightarrow> throw SyntaxError)"

definition JSON_stringify :: "json \<Rightarrow> content" where
  "JSON_stringify j = Doc j"

text \<open>Decimal digits of a number, as a template literal prints \<^verbatim>\<open>Date.now()\<close>.\<close>

definition digit :: "nat \<Rightarrow> char" where
  "digit d = ''0123456789'' ! d"

fun decimal :: "nat \<Rightarrow> string" where
  "decimal n = (if n < 10 then [digit n] else decimal (n div 10) @ [digit (n mod 10)])"

declare decimal.simps [simp del]

section \<open>\<^verbatim>\<open>claude-settings.ts\<close>: the live settings store\<close>

definition CLAUDE_SETTINGS_PATH :: path where
  "CLAUDE_SETTINGS_PATH = join (join homedir ''.claude'') ''settings.json''"

text \<open>\<^verbatim>\<open>loadClaudeSettings\<close> returns \<^verbatim>\<open>null\<close> when the file does not exist.\<close>

definition loadClaudeSettings :: "json io" where
  "loadClaudeSettings w =
     (if \<not> existsSync CLAUDE_SETTINGS_PATH w then return JNull w
      else await (readFile CLAUDE_SETTINGS_PATH) (\<lambda>content. JSON_parse content) w)"

text \<open>
  \<^verbatim>\<open>atomicWrite\<close>: the two modules have one copy each, which differ in the prefix of the
  temporary file's name only.
\<close>

definition tmpPath :: "string \<Rightarrow> path \<Rightarrow> nat \<Rightarrow> path" where
  "tmpPath pre p timestamp = join (dirname p) (pre @ decimal timestamp)"

definition cleanup :: "path \<Rightarrow> unit io" where
  "cleanup tmp =
     try_catch (\<lambda>w. if existsSync tmp w then unlink tmp w else return () w) (\<lambda>_. return ())"

definition atomicWrite_with :: "string \<Rightarrow> path \<Rightarrow> content \<Rightarrow> unit io" where
  "atomicWrite_with pre p data =
     await Date_now (\<lambda>timestamp.
       try_catch
         (await (writeFile (tmpPath pre p timestamp) data) (\<lambda>_.
            rename (tmpPath pre p timestamp) p))
         (\<lambda>error. await (cleanup (tmpPath pre p timestamp)) (\<lambda>_. throw error)))"

definition settings_atomicWrite :: "path \<Rightarrow> content \<Rightarrow> unit io" where
  "settings_atomicWrite = atomicWrite_with ''.settings.json.tmp.''"

definition saveClaudeSettings :: "json \<Rightarrow> unit io" where
  "saveClaudeSettings settings = settings_atomicWrite CLAUDE_SETTINGS_PATH (JSON_stringify settings)"

definition writeLiveSnapshot :: "json \<Rightarrow> unit io" where
  "writeLiveSnapshot settingsConfig' = saveClaudeSettings settingsConfig'"

definition readLiveSettings :: "json io" where
  "readLiveSettings = loadClaudeSettings"

section \<open>\<^verbatim>\<open>provider-storage.ts\<close>: the provider store\<close>

definition CONFIG_DIR :: path where
  "CONFIG_DIR = join homedir ''.cc''"

definition CONFIG_FILE :: path where
  "CONFIG_FILE = join CONFIG_DIR ''providers.json''"

definition generateId :: "string io" where
  "generateId = await Date_now (\<lambda>t. await Math_random36 (\<lambda>r. return (decimal t @ ''-'' @ r)))"

definition providers_atomicWrite :: "path \<Rightarrow> content \<Rightarrow> unit io" where
  "providers_atomicWrite = atomicWrite_with ''.providers.json.tmp.''"

definition ensureConfigDir :: "unit io" where
  "ensureConfigDir w = (if \<not> existsSync CONFIG_DIR w then mkdir CONFIG_DIR w else return () w)"

text \<open>
  \<^verbatim>\<open>loadProviders\<close> returns the parsed value as it is; its return type \<^verbatim>\<open>ProvidersConfig\<close> is
  not checked.  \<open>{ providers: [] }\<close> is the value for a store that has no file yet.
\<close>

definition loadProviders :: "json io" where
  "loadProviders =
     await ensureConfigDir (\<lambda>_ w.
       if \<not> existsSync CONFIG_FILE w then return (JObj [(''providers'', JArr [])]) w
       else await (readFile CONFIG_FILE) (\<lambda>content. JSON_parse content) w)"

definition saveProviders :: "ProvidersConfig \<Rightarrow> unit io" where
  "saveProviders config =
     await ensureConfigDir (\<lambda>_.
       providers_atomicWrite CONFIG_FILE (JSON_stringify (ProvidersConfig_json config)))"

text \<open>
  The operations below use the loaded value at its declared type.  Where the stored value
  has that type they do what the source does; where it has not, the model stops with
  \<open>OutsideDeclaredType\<close>.
\<close>

definition loadProviders_typed :: "ProvidersConfig io" where
  "loadProviders_typed =
     await loadProviders (\<lambda>j.
       case as_ProvidersConfig j of
         None \<Rightarrow> throw (OutsideDeclaredType j)
       | Some config \<Rightarrow> return config)"

text \<open>\<^verbatim>\<open>Array.prototype.findIndex\<close>; \<open>None\<close> stands for \<open>-1\<close>.\<close>

fun findIndex :: "('a \<Rightarrow> bool) \<Rightarrow> 'a list \<Rightarrow> nat option" where
  "findIndex P [] = None"
| "findIndex P (x # xs) = (if P x then Some 0 else map_option Suc (findIndex P xs))"



definition addProvider :: "ProviderFields \<Rightarrow> Provider io" where
  "addProvider provider =
     await loadProviders_typed (\<lambda>config.
     await generateId (\<lambda>newId.
     await Date_now (\<lambda>now.
       let newProvider =
             \<lparr>name = name provider, settingsConfig = settingsConfig provider,
              description = description provider, category = category provider,
              icon = icon provider, iconColor = iconColor provider,
              id' = newId, createdAt = Some (int now)\<rparr>
       in await (saveProviders (config\<lparr>providers := providers config @ [newProvider]\<rparr>)) (\<lambda>_.
          return newProvider))))"


definition removeProvider :: "string \<Rightarrow> bool io" where
  "removeProvider ident =
     await loadProviders_typed (\<lambda>config.
       let initialLength = length (providers config);
           config1 = config\<lparr>providers := filter (\<lambda>p. id' p \<noteq> ident) (providers config)\<rparr>
       in if length (providers config1) < initialLength then
            let config2 =
                  (if currentProviderId config1 = Some ident
                   then config1\<lparr>currentProviderId := None\<rparr> else config1)
            in await (saveProviders config2) (\<lambda>_. return True)
          else return False)"

text \<open>
  The provider that \<^verbatim>\<open>getCurrentProvider\<close> finds in a configuration: none when
  \<^verbatim>\<open>currentProviderId\<close> is absent or empty, else the first provider with that id.
\<close>

definition currentProvider :: "ProvidersConfig \<Rightarrow> Provider option" where
  "currentProvider config =
     (if \<not> truthy_string (currentProviderId config) then None
      else find (\<lambda>p. Some (id' p) = currentProviderId config) (providers config))"

definition getCurrentProvider :: "Provider option io" where
  "getCurrentProvider = await loadProviders_typed (\<lambda>config. return (currentProvider config))"

text \<open>
  \<^verbatim>\<open>backfillCurrentProvider\<close> assigns to a property of an object inside \<^verbatim>\<open>config.providers\<close>.
  An object of that array is identified by its position; the function returns the
  configuration with the object at that position changed.
\<close>

definition backfillCurrentProvider :: "ProvidersConfig \<Rightarrow> ProvidersConfig io" where
  "backfillCurrentProvider config =
     (if \<not> truthy_string (currentProviderId config) then return config
      else
        case findIndex (\<lambda>p. Some (id' p) = currentProviderId config) (providers config) of
          None \<Rightarrow> return config
        | Some current \<Rightarrow>
            await readLiveSettings (\<lambda>liveSettings.
              if \<not> truthy liveSettings then return config
              else return (config\<lparr>providers :=
                (providers config)
                  [current := (providers config ! current)\<lparr>settingsConfig := liveSettings\<rparr>]\<rparr>)))"

text \<open>
  \<^verbatim>\<open>switchProvider\<close>.  \<^verbatim>\<open>targetProvider\<close> is the object found at position \<open>target\<close>; it is
  read again after the backfill, as the source reads \<^verbatim>\<open>targetProvider.settingsConfig\<close> from
  the same object.
\<close>

definition switchProvider :: "string \<Rightarrow> Provider io" where
  "switchProvider ident =
     await loadProviders_typed (\<lambda>config.
       case findIndex (\<lambda>p. id' p = ident) (providers config) of
         None \<Rightarrow> throw (Error (''Provider '' @ ident @ '' not found''))
       | Some target \<Rightarrow>
           await (if truthy_string (currentProviderId config)
                     \<and> currentProviderId config \<noteq> Some ident
                  then backfillCurrentProvider config else return config) (\<lambda>config1.
           let config2 = config1\<lparr>currentProviderId := Some ident\<rparr> in
           await (saveProviders config2) (\<lambda>_.
           let targetProvider = providers config2 ! target in
           await (writeLiveSnapshot (settingsConfig targetProvider)) (\<lambda>_.
           return targetProvider))))"

text \<open>
  The configuration that the provider store holds: the empty one while there is no file,
  the typed reading of the file's value otherwise (none if the file is not of the declared
  shape).
\<close>

definition stored_config :: "world \<Rightarrow> ProvidersConfig option" where
  "stored_config w =
     (case files w CONFIG_FILE of
        None \<Rightarrow>
          if CONFIG_FILE \<in> dirs w then None
          else Some \<lparr>providers = [], currentProviderId = None\<rparr>
      | Some (Doc j) \<Rightarrow> as_ProvidersConfig j
      | Some (Junk _) \<Rightarrow> None)"

text \<open>No file-system call fails from now on.\<close>

definition no_faults :: "world \<Rightarrow> bool" where
  "no_faults w = (\<forall>n. faults w n = Done)"

section \<open>Worlds reached by the store functions\<close>

text \<open>
  Auxiliary descriptions of the world that a call leaves behind when no file-system call
  fails; the lemmas of the next section relate them to the functions above.
\<close>

text \<open>The world after \<^verbatim>\<open>ensureConfigDir\<close>.\<close>

definition ensured :: "world \<Rightarrow> world" where
  "ensured w =
     (if existsSync CONFIG_DIR w then w
      else w\<lparr>trace := trace w @ [Mkdir CONFIG_DIR], calls := Suc (calls w),
             dirs := dirs w \<union> set (prefixes CONFIG_DIR)\<rparr>)"

text \<open>The world after \<^verbatim>\<open>loadProviders\<close>.\<close>

definition loaded :: "world \<Rightarrow> world" where
  "loaded w =
     (if existsSync CONFIG_FILE w then (ensured w)\<lparr>calls := Suc (calls (ensured w))\<rparr>
      else ensured w)"

text \<open>The world after an \<^verbatim>\<open>atomicWrite\<close> of \<open>data\<close> to \<open>p\<close>.\<close>

definition written :: "string \<Rightarrow> path \<Rightarrow> content \<Rightarrow> world \<Rightarrow> world" where
  "written pre p data w =
     w\<lparr>ticks := Suc (ticks w),
       trace := trace w @ [WriteFile (tmpPath pre p (clock w (ticks w))) data,
                           Rename (tmpPath pre p (clock w (ticks w))) p],
       calls := Suc (Suc (calls w)),
       files := (files w)(tmpPath pre p (clock w (ticks w)) := None, p \<mapsto> data)\<rparr>"

section \<open>Example worlds\<close>

text \<open>
  A machine on which the tool has never run: the home directory exists and holds neither
  store.  The clock stands at one millisecond, the random source repeats one value, and no
  file-system call fails.
\<close>

definition first_run :: world where
  "first_run =
     \<lparr>files = Map.empty, dirs = {homedir}, clock = (\<lambda>n. 1700000000000), ticks = 0,
      random36 = (\<lambda>n. ''k3x9q2a''), draws = 0, faults = (\<lambda>n. Done), calls = 0, trace = []\<rparr>"

text \<open>
  The scenario of the spec: provider \<open>P1\<close> is active, its stored settings hold the token
  only, and the live file carries an edit made by hand; \<open>P2\<close> is the other provider.
\<close>

definition P1 :: Provider where
  "P1 = \<lparr>name = ''work'', settingsConfig = JObj [(''env'', JObj [(''TOKEN'', JStr ''old'')])],
          description = None, category = Some Api, icon = None, iconColor = None,
          id' = ''P1'', createdAt = Some 1\<rparr>"

definition P2 :: Provider where
  "P2 = \<lparr>name = ''personal'', settingsConfig = JObj [(''env'', JObj [(''TOKEN'', JStr ''two'')])],
          description = Some ''second account'', category = Some Subscription, icon = None,
          iconColor = None, id' = ''P2'', createdAt = Some 2\<rparr>"

definition live_edit :: json where
  "live_edit = JObj [(''env'', JObj [(''TOKEN'', JStr ''old''), (''EXTRA'', JStr ''user-edit'')])]"

definition installed :: world where
  "installed = first_run
     \<lparr>files := [CONFIG_FILE \<mapsto> Doc (ProvidersConfig_json
                   \<lparr>providers = [P1, P2], currentProviderId = Some ''P1''\<rparr>),
                 CLAUDE_SETTINGS_PATH \<mapsto> Doc live_edit],
      dirs := {homedir, CONFIG_DIR, dirname CLAUDE_SETTINGS_PATH}\<rparr>"

text \<open>The same machine with another JSON value in the live settings file.\<close>

definition installed_with :: "json \<Rightarrow> world" where
  "installed_with j = installed\<lparr>files := (files installed)(CLAUDE_SETTINGS_PATH \<mapsto> Doc j)\<rparr>"

text \<open>
  Two worlds in which a write goes wrong.  In \<open>torn_write\<close> the first file-system call (the
  \<^verbatim>\<open>writeFile\<close> of an \<^verbatim>\<open>atomicWrite\<close>) fails for lack of space after part of the data was
  written, and the next call (the \<^verbatim>\<open>unlink\<close> of the cleanup) fails as well.  In
  \<open>failed_rename\<close> the second call (the \<^verbatim>\<open>rename\<close>) fails.
\<close>

definition torn_write :: world where
  "torn_write = installed
     \<lparr>faults := (\<lambda>n. if n = 0 then Torn (IOError ''ENOSPC'') (Junk ''{ provi'')
                      else if n = 1 then Failed (IOError ''EPERM'') else Done)\<rparr>"

definition failed_rename :: world where
  "failed_rename = installed
     \<lparr>faults := (\<lambda>n. if n = 1 then Failed (IOError ''EACCES'') else Done)\<rparr>"

text \<open>The paths given to \<^verbatim>\<open>writeFile\<close> so far, in order: the temporary files' names.\<close>

fun temporary_names :: "event list \<Rightarrow> path list" where
  "temporary_names [] = []"
| "temporary_names (WriteFile p _ # es) = p # temporary_names es"
| "temporary_names (_ # es) = temporary_names es"

text \<open>Calling \<^verbatim>\<open>addProvider\<close> once for each element of a list, one call after the other.\<close>

fun addMany :: "ProviderFields list \<Rightarrow> Provider list io" where
  "addMany [] = return []"
| "addMany (provider # rest) =
     await (addProvider provider) (\<lambda>added.
     await (addMany rest) (\<lambda>others. return (added # others)))"

text \<open>Two new providers to add, and a machine whose clock advances with every reading.\<close>

definition new_work :: ProviderFields where
  "new_work = \<lparr>name = ''work'', settingsConfig = JObj [(''env'', JObj [(''TOKEN'', JStr ''one'')])],
                description = None, category = Some Api, icon = None, iconColor = None\<rparr>"

definition new_home :: ProviderFields where
  "new_home = \<lparr>name = ''home'', settingsConfig = JObj [(''env'', JObj [])],
                description = Some ''subscription'', category = Some Subscription, icon = None,
                iconColor = None\<rparr>"

definition ticking :: world where
  "ticking = first_run\<lparr>clock := (\<lambda>n. 1700000000000 + n)\<rparr>"

section \<open>Basic facts\<close>

subsection \<open>A typed value is read back from its JSON\<close>

lemma as_category_json [simp]: "as_category (category_json c) = Some c"
  by (cases c) simp_all

lemma as_Provider_json [simp]: "as_Provider (Provider_json p) = Some p"
  by (cases "description p"; cases "category p"; cases "createdAt p"; cases "icon p";
      cases "iconColor p")
     (simp_all add: as_Provider_def Provider_json_def declared_members_def optional_member_def)

lemma those_as_Provider [simp]: "those (map (as_Provider \<circ> Provider_json) ps) = Some ps"
  by (induction ps) simp_all

lemma as_ProvidersConfig_json [simp]: "as_ProvidersConfig (ProvidersConfig_json c) = Some c"
  by (cases c; cases "currentProviderId c")
     (simp_all add: as_ProvidersConfig_def ProvidersConfig_json_def declared_members_def
        optional_member_def)

subsection \<open>The primitives when nothing fails\<close>

lemma no_faults_next [simp]: "no_faults w \<Longrightarrow> faults w n = Done"
  by (simp add: no_faults_def)

lemma no_faults_upd [simp]:
  "no_faults (w\<lparr>files := f\<rparr>) = no_faults w"
  "no_faults (w\<lparr>dirs := d\<rparr>) = no_faults w"
  "no_faults (w\<lparr>ticks := t\<rparr>) = no_faults w"
  "no_faults (w\<lparr>draws := r\<rparr>) = no_faults w"
  "no_faults (w\<lparr>calls := c\<rparr>) = no_faults w"
  "no_faults (w\<lparr>trace := tr\<rparr>) = no_faults w"
  "no_faults (w\<lparr>clock := k\<rparr>) = no_faults w"
  "no_faults (w\<lparr>random36 := g\<rparr>) = no_faults w"
  by (simp_all add: no_faults_def)

lemma existsSync_upd [simp]:
  "existsSync p (w\<lparr>ticks := t\<rparr>) = existsSync p w"
  "existsSync p (w\<lparr>draws := r\<rparr>) = existsSync p w"
  "existsSync p (w\<lparr>calls := c\<rparr>) = existsSync p w"
  "existsSync p (w\<lparr>trace := tr\<rparr>) = existsSync p w"
  by (simp_all add: existsSync_def)

lemma mkdir_Done:
  "no_faults w \<Longrightarrow> mkdir p w =
     (Inr (), w\<lparr>trace := trace w @ [Mkdir p], calls := Suc (calls w),
               dirs := dirs w \<union> set (prefixes p)\<rparr>)"
  by (simp add: mkdir_def next_outcome_def)

lemma readFile_Done:
  "no_faults w \<Longrightarrow> files w p = Some c \<Longrightarrow> readFile p w = (Inr c, w\<lparr>calls := Suc (calls w)\<rparr>)"
  by (simp add: readFile_def next_outcome_def)

lemma writeFile_Done:
  "no_faults w \<Longrightarrow> writeFile p d w =
     (Inr (), w\<lparr>trace := trace w @ [WriteFile p d], calls := Suc (calls w),
               files := (files w)(p \<mapsto> d)\<rparr>)"
  by (simp add: writeFile_def next_outcome_def)

lemma rename_Done:
  "no_faults w \<Longrightarrow> files w src = Some c \<Longrightarrow> rename src dst w =
     (Inr (), w\<lparr>trace := trace w @ [Rename src dst], calls := Suc (calls w),
               files := (files w)(src := None, dst \<mapsto> c)\<rparr>)"
  by (simp add: rename_def next_outcome_def)

subsection \<open>Paths\<close>

lemma CONFIG_FILE_not_above_CONFIG_DIR: "CONFIG_FILE \<notin> set (prefixes CONFIG_DIR)"
  by (simp add: CONFIG_FILE_def CONFIG_DIR_def join_def homedir_def)

lemma tmp_providers_neq [simp]:
  "tmpPath ''.providers.json.tmp.'' CONFIG_FILE t \<noteq> CONFIG_FILE"
  "CONFIG_FILE \<noteq> tmpPath ''.providers.json.tmp.'' CONFIG_FILE t"
  by (simp_all add: tmpPath_def CONFIG_FILE_def join_def)

lemma tmp_settings_neq [simp]:
  "tmpPath ''.settings.json.tmp.'' CLAUDE_SETTINGS_PATH t \<noteq> CLAUDE_SETTINGS_PATH"
  "CLAUDE_SETTINGS_PATH \<noteq> tmpPath ''.settings.json.tmp.'' CLAUDE_SETTINGS_PATH t"
  by (simp_all add: tmpPath_def CLAUDE_SETTINGS_PATH_def join_def)

lemma stores_apart [simp]:
  "CONFIG_FILE \<noteq> CLAUDE_SETTINGS_PATH"
  "CLAUDE_SETTINGS_PATH \<noteq> CONFIG_FILE"
  "tmpPath ''.providers.json.tmp.'' CONFIG_FILE t \<noteq> CLAUDE_SETTINGS_PATH"
  "CLAUDE_SETTINGS_PATH \<noteq> tmpPath ''.providers.json.tmp.'' CONFIG_FILE t"
  "tmpPath ''.settings.json.tmp.'' CLAUDE_SETTINGS_PATH t \<noteq> CONFIG_FILE"
  "CONFIG_FILE \<noteq> tmpPath ''.settings.json.tmp.'' CLAUDE_SETTINGS_PATH t"
  by (simp_all add: tmpPath_def CLAUDE_SETTINGS_PATH_def CONFIG_FILE_def CONFIG_DIR_def join_def
      dirname_def)

subsection \<open>The store functions when nothing fails\<close>

lemma ensured_simps [simp]:
  "files (ensured w) = files w"
  "clock (ensured w) = clock w"
  "ticks (ensured w) = ticks w"
  "random36 (ensured w) = random36 w"
  "draws (ensured w) = draws w"
  "faults (ensured w) = faults w"
  "no_faults (ensured w) = no_faults w"
  "existsSync CONFIG_DIR (ensured w)"
  by (simp_all add: ensured_def existsSync_def CONFIG_DIR_def)

lemma ensured_twice [simp]: "ensured (ensured w) = ensured w"
  using ensured_simps(8)[of w] by (subst ensured_def) simp

lemma existsSync_ensured [simp]: "existsSync CONFIG_FILE (ensured w) = existsSync CONFIG_FILE w"
  using CONFIG_FILE_not_above_CONFIG_DIR by (simp add: ensured_def existsSync_def)

lemma CONFIG_FILE_dirs_ensured [simp]:
  "CONFIG_FILE \<in> dirs (ensured w) \<longleftrightarrow> CONFIG_FILE \<in> dirs w"
  using CONFIG_FILE_not_above_CONFIG_DIR by (simp add: ensured_def)

lemma ensureConfigDir_Done: "no_faults w \<Longrightarrow> ensureConfigDir w = (Inr (), ensured w)"
  by (simp add: ensureConfigDir_def ensured_def mkdir_Done return_def)

lemma loaded_simps [simp]:
  "files (loaded w) = files w"
  "clock (loaded w) = clock w"
  "ticks (loaded w) = ticks w"
  "random36 (loaded w) = random36 w"
  "draws (loaded w) = draws w"
  "faults (loaded w) = faults w"
  "no_faults (loaded w) = no_faults w"
  "existsSync CONFIG_DIR (loaded w)"
  "existsSync CONFIG_FILE (loaded w) = existsSync CONFIG_FILE w"
  "CONFIG_FILE \<in> dirs (loaded w) \<longleftrightarrow> CONFIG_FILE \<in> dirs w"
  by (simp_all add: loaded_def)

lemma ensured_loaded [simp]: "ensured (loaded w) = loaded w"
  using loaded_simps(8)[of w] by (subst ensured_def) simp

lemma loadProviders_absent:
  "no_faults w \<Longrightarrow> \<not> existsSync CONFIG_FILE w \<Longrightarrow>
   loadProviders w = (Inr (JObj [(''providers'', JArr [])]), loaded w)"
  by (simp add: loadProviders_def await_def ensureConfigDir_Done return_def loaded_def)

lemma loadProviders_present:
  "no_faults w \<Longrightarrow> files w CONFIG_FILE = Some c \<Longrightarrow> loadProviders w = JSON_parse c (loaded w)"
  by (simp add: loadProviders_def await_def ensureConfigDir_Done readFile_Done loaded_def
      existsSync_def)

lemma atomicWrite_with_Done:
  assumes "no_faults w" "tmpPath pre p (clock w (ticks w)) \<noteq> p"
  shows "atomicWrite_with pre p data w = (Inr (), written pre p data w)"
  using assms
  by (simp add: atomicWrite_with_def await_def try_catch_def Date_now_def writeFile_Done
      rename_Done written_def)

lemma saveProviders_Done:
  "no_faults w \<Longrightarrow> saveProviders config w =
     (Inr (), written ''.providers.json.tmp.'' CONFIG_FILE (Doc (ProvidersConfig_json config))
                (ensured w))"
  by (simp add: saveProviders_def await_def ensureConfigDir_Done providers_atomicWrite_def
      atomicWrite_with_Done JSON_stringify_def)

lemma writeLiveSnapshot_Done:
  "no_faults w \<Longrightarrow> writeLiveSnapshot settings w =
     (Inr (), written ''.settings.json.tmp.'' CLAUDE_SETTINGS_PATH (Doc settings) w)"
  by (simp add: writeLiveSnapshot_def saveClaudeSettings_def settings_atomicWrite_def
      atomicWrite_with_Done JSON_stringify_def)

lemma no_faults_first_run [simp]: "no_faults first_run"
  by (simp add: no_faults_def first_run_def)

subsection \<open>Decimal digits\<close>

lemma digit_inj: "a < 10 \<Longrightarrow> b < 10 \<Longrightarrow> digit a = digit b \<longleftrightarrow> a = b"
  using nth_eq_iff_index_eq[of "''0123456789''" a b] by (simp add: digit_def)

lemma digit_not_hyphen: "d < 10 \<Longrightarrow> digit d \<noteq> CHR ''-''"
  using nth_mem[of d "''0123456789''"] by (auto simp add: digit_def)

lemma decimal_not_Nil: "decimal n \<noteq> []"
  by (subst decimal.simps) simp

lemma decimal_small: "n < 10 \<Longrightarrow> decimal n = [digit n]"
  by (subst decimal.simps) simp

lemma decimal_large: "\<not> n < 10 \<Longrightarrow> decimal n = decimal (n div 10) @ [digit (n mod 10)]"
  by (subst decimal.simps) simp

lemma decimal_inj: "decimal m = decimal n \<longleftrightarrow> m = n"
proof
  show "decimal m = decimal n \<Longrightarrow> m = n"
  proof (induction m arbitrary: n rule: decimal.induct)
    case (1 m)
    show ?case
    proof (cases "m < 10")
      case small: True
      show ?thesis
      proof (cases "n < 10")
        case True
        with small "1.prems" show ?thesis
          by (simp add: decimal_small digit_inj)
      next
        case False
        with small "1.prems" decimal_not_Nil[of "n div 10"] show ?thesis
          by (simp add: decimal_small decimal_large)
      qed
    next
      case large: False
      show ?thesis
      proof (cases "n < 10")
        case True
        with large "1.prems" decimal_not_Nil[of "m div 10"] show ?thesis
          by (simp add: decimal_small decimal_large)
      next
        case False
        with large "1.prems" have "decimal (m div 10) = decimal (n div 10)"
          and "digit (m mod 10) = digit (n mod 10)"
          by (simp_all add: decimal_large)
        with large "1.IH" have "m div 10 = n div 10" and "m mod 10 = n mod 10"
          by (simp_all add: digit_inj)
        then show ?thesis
          by (metis div_mult_mod_eq)
      qed
    qed
  qed
qed simp

lemma decimal_no_hyphen: "CHR ''-'' \<notin> set (decimal n)"
proof (induction n rule: decimal.induct)
  case (1 n)
  then show ?case
    using digit_not_hyphen[of n] digit_not_hyphen[of "n mod 10"]
    by (cases "n < 10") (auto simp add: decimal_small decimal_large)
qed

lemma takeWhile_until: "x \<notin> set xs \<Longrightarrow> takeWhile (\<lambda>c. c \<noteq> x) (xs @ x # ys) = xs"
  by (induction xs) auto

lemma generated_id_inj:
  "decimal t1 @ ''-'' @ r1 = decimal t2 @ ''-'' @ r2 \<longleftrightarrow> t1 = t2 \<and> r1 = r2"
proof
  assume eq: "decimal t1 @ ''-'' @ r1 = decimal t2 @ ''-'' @ r2"
  have "takeWhile (\<lambda>c. c \<noteq> CHR ''-'') (decimal t @ ''-'' @ r) = decimal t" for t r
    using decimal_no_hyphen[of t] by (simp add: takeWhile_until)
  with eq have "decimal t1 = decimal t2" by metis
  with eq show "t1 = t2 \<and> r1 = r2" by (simp add: decimal_inj)
qed simp

lemma decimal_example: "decimal 1700000000000 = ''1700000000000''"
  by (simp add: decimal.simps digit_def)

subsection \<open>\<^verbatim>\<open>atomicWrite\<close> when a step fails\<close>

lemma atomicWrite_with_write_fails:
  assumes neq: "tmpPath pre p (clock w (ticks w)) \<noteq> p"
    and fails: "failure (faults w (calls w)) = Some e"
  shows "\<exists>w'. atomicWrite_with pre p data w = (Inl e, w')
      \<and> (\<forall>q. q \<noteq> tmpPath pre p (clock w (ticks w)) \<longrightarrow> files w' q = files w q)
      \<and> (files w' (tmpPath pre p (clock w (ticks w))) = None
           \<or> last (trace w') = Unlink (tmpPath pre p (clock w (ticks w))))
      \<and> (faults w (Suc (calls w)) = Done \<longrightarrow> files w' (tmpPath pre p (clock w (ticks w))) = None)"
  using assms
  by (cases "faults w (calls w)"; cases "faults w (Suc (calls w))")
     (auto simp add: atomicWrite_with_def await_def try_catch_def Date_now_def writeFile_def
       rename_def unlink_def cleanup_def next_outcome_def return_def throw_def existsSync_def
       split: option.splits)

lemma atomicWrite_with_rename_fails:
  assumes neq: "tmpPath pre p (clock w (ticks w)) \<noteq> p"
    and written: "faults w (calls w) = Done"
    and fails: "failure (faults w (Suc (calls w))) = Some e"
  shows "\<exists>w'. atomicWrite_with pre p data w = (Inl e, w')
      \<and> (\<forall>q. q \<noteq> tmpPath pre p (clock w (ticks w)) \<longrightarrow> files w' q = files w q)
      \<and> last (trace w') = Unlink (tmpPath pre p (clock w (ticks w)))
      \<and> (faults w (Suc (Suc (calls w))) = Done \<longrightarrow>
            files w' (tmpPath pre p (clock w (ticks w))) = None)"
  using assms
  by (cases "faults w (Suc (calls w))"; cases "faults w (Suc (Suc (calls w)))")
     (auto simp add: atomicWrite_with_def await_def try_catch_def Date_now_def writeFile_def
       rename_def unlink_def cleanup_def next_outcome_def return_def throw_def existsSync_def
       split: option.splits)

lemma temporary_names_append [simp]:
  "temporary_names (es @ fs) = temporary_names es @ temporary_names fs"
  by (induction es rule: temporary_names.induct) simp_all

lemma atomicWrite_with_temporary_name:
  "temporary_names (trace (snd (atomicWrite_with pre p data w)))
     = temporary_names (trace w) @ [tmpPath pre p (clock w (ticks w))]"
  by (cases "faults w (calls w)"; cases "faults w (Suc (calls w))";
      cases "faults w (Suc (Suc (calls w)))")
     (auto simp add: atomicWrite_with_def await_def try_catch_def Date_now_def writeFile_def
       rename_def unlink_def cleanup_def next_outcome_def return_def throw_def existsSync_def
       split: option.splits)

subsection \<open>The example worlds\<close>

lemma installed_simps [simp]:
  "no_faults installed"
  "trace installed = []"
  "ticks installed = 0"
  "calls installed = 0"
  "draws installed = 0"
  "clock installed n = 1700000000000"
  "random36 installed n = ''k3x9q2a''"
  "existsSync CONFIG_DIR installed"
  "files installed CONFIG_FILE
     = Some (Doc (ProvidersConfig_json \<lparr>providers = [P1, P2], currentProviderId = Some ''P1''\<rparr>))"
  "files installed CLAUDE_SETTINGS_PATH = Some (Doc live_edit)"
  by (simp_all add: installed_def existsSync_def) (simp_all add: first_run_def)

subsection \<open>Searching a list of providers\<close>

lemma findIndex_None: "findIndex P xs = None \<longleftrightarrow> (\<forall>x\<in>set xs. \<not> P x)"
  by (induction xs) auto

lemma findIndex_Some:
  "findIndex P xs = Some k \<Longrightarrow> k < length xs \<and> P (xs ! k) \<and> find P xs = Some (xs ! k)"
  by (induction xs arbitrary: k) (auto split: if_splits)

lemma find_findIndex:
  "find P xs = Some x \<Longrightarrow> \<exists>k. findIndex P xs = Some k \<and> k < length xs \<and> xs ! k = x \<and> P x"
  by (induction xs) (auto split: if_splits)

lemma find_update_first:
  "findIndex P xs = Some k \<Longrightarrow> P y \<Longrightarrow> find P (xs[k := y]) = Some y"
  by (induction xs arbitrary: k) (auto split: if_splits)

lemma ProvidersConfig_updates:
  "config\<lparr>providers := ps, currentProviderId := c\<rparr> = \<lparr>providers = ps, currentProviderId = c\<rparr>"
  by (cases config) simp

lemma currentProvider_Some:
  assumes "currentProvider config = Some p"
  shows "currentProviderId config = Some (id' p)" and "id' p \<noteq> []"
    and "\<exists>k. findIndex (\<lambda>q. id' q = id' p) (providers config) = Some k
           \<and> k < length (providers config) \<and> providers config ! k = p"
proof -
  from assms have t: "truthy_string (currentProviderId config)"
    and f: "find (\<lambda>q. Some (id' q) = currentProviderId config) (providers config) = Some p"
    by (auto simp add: currentProvider_def split: if_splits)
  from f show cur: "currentProviderId config = Some (id' p)"
    by (auto dest: find_findIndex)
  with t show "id' p \<noteq> []"
    by simp
  from f cur show "\<exists>k. findIndex (\<lambda>q. id' q = id' p) (providers config) = Some k
           \<and> k < length (providers config) \<and> providers config ! k = p"
    by (auto dest: find_findIndex)
qed

subsection \<open>The typed operations when nothing fails\<close>

lemma as_ProvidersConfig_empty:
  "as_ProvidersConfig (JObj [(''providers'', JArr [])])
     = Some \<lparr>providers = [], currentProviderId = None\<rparr>"
  by (simp add: as_ProvidersConfig_def declared_members_def)

lemma loadProviders_typed_stored:
  assumes "no_faults w" "stored_config w = Some config"
  shows "loadProviders_typed w = (Inr config, loaded w)"
proof (cases "files w CONFIG_FILE")
  case None
  with assms(2) have "\<not> existsSync CONFIG_FILE w"
    and "config = \<lparr>providers = [], currentProviderId = None\<rparr>"
    by (auto simp add: stored_config_def existsSync_def split: if_splits)
  with assms(1) show ?thesis
    by (simp add: loadProviders_typed_def await_def loadProviders_absent as_ProvidersConfig_empty
        return_def)
next
  case (Some c)
  with assms(2) obtain j where "c = Doc j" "as_ProvidersConfig j = Some config"
    by (cases c) (auto simp add: stored_config_def)
  with assms(1) Some show ?thesis
    by (simp add: loadProviders_typed_def await_def loadProviders_present JSON_parse_def return_def)
qed

lemma written_simps [simp]:
  "no_faults (written pre p d w) = no_faults w"
  "clock (written pre p d w) = clock w"
  "ticks (written pre p d w) = Suc (ticks w)"
  "random36 (written pre p d w) = random36 w"
  "draws (written pre p d w) = draws w"
  "dirs (written pre p d w) = dirs w"
  by (simp_all add: written_def)

lemma stored_config_written:
  "stored_config (written ''.providers.json.tmp.'' CONFIG_FILE (Doc (ProvidersConfig_json c)) w)
     = Some c"
  by (simp add: stored_config_def written_def)

lemma stored_config_live_written [simp]:
  "stored_config (written ''.settings.json.tmp.'' CLAUDE_SETTINGS_PATH d w) = stored_config w"
  by (simp add: stored_config_def written_def)

lemma stored_config_loaded [simp]: "stored_config (loaded w) = stored_config w"
  by (simp add: stored_config_def)

lemma ensured_calls [simp]:
  "existsSync CONFIG_DIR w \<Longrightarrow> ensured (w\<lparr>calls := n\<rparr>) = w\<lparr>calls := n\<rparr>"
  by (simp add: ensured_def)

lemma is_ClaudeSettings_truthy: "is_ClaudeSettings j \<Longrightarrow> truthy j"
  by (cases j) simp_all

lemma backfill_absent:
  "\<not> existsSync CLAUDE_SETTINGS_PATH w \<Longrightarrow> backfillCurrentProvider config w = (Inr config, w)"
  by (simp add: backfillCurrentProvider_def return_def await_def readLiveSettings_def
      loadClaudeSettings_def split: option.splits)

lemma backfill_present:
  assumes "no_faults w" "files w CLAUDE_SETTINGS_PATH = Some (Doc live)" "truthy live"
    and "truthy_string (currentProviderId config)"
    and "findIndex (\<lambda>p. Some (id' p) = currentProviderId config) (providers config) = Some k"
  shows "backfillCurrentProvider config w =
     (Inr (config\<lparr>providers :=
             (providers config)[k := (providers config ! k)\<lparr>settingsConfig := live\<rparr>]\<rparr>),
      w\<lparr>calls := Suc (calls w)\<rparr>)"
  using assms
  by (simp add: backfillCurrentProvider_def return_def await_def readLiveSettings_def
      loadClaudeSettings_def existsSync_def readFile_Done JSON_parse_def)

lemma backfill_falsy:
  assumes "no_faults w" "files w CLAUDE_SETTINGS_PATH = Some (Doc live)" "\<not> truthy live"
    and "truthy_string (currentProviderId config)"
    and "findIndex (\<lambda>p. Some (id' p) = currentProviderId config) (providers config) = Some k"
  shows "backfillCurrentProvider config w = (Inr config, w\<lparr>calls := Suc (calls w)\<rparr>)"
  using assms
  by (simp add: backfillCurrentProvider_def return_def await_def readLiveSettings_def
      loadClaudeSettings_def existsSync_def readFile_Done JSON_parse_def)

lemma stored_config_installed [simp]:
  "stored_config installed = Some \<lparr>providers = [P1, P2], currentProviderId = Some ''P1''\<rparr>"
  by (simp add: stored_config_def)

lemma installed_with_simps [simp]:
  "no_faults (installed_with j)"
  "stored_config (installed_with j)
     = Some \<lparr>providers = [P1, P2], currentProviderId = Some ''P1''\<rparr>"
  "files (installed_with j) CLAUDE_SETTINGS_PATH = Some (Doc j)"
  by (simp_all add: installed_with_def stored_config_def)

lemma scenario:
  "currentProvider \<lparr>providers = [P1, P2], currentProviderId = Some ''P1''\<rparr> = Some P1"
  "find (\<lambda>p. id' p = ''P2'') (providers \<lparr>providers = [P1, P2],
      currentProviderId = Some ''P1''\<rparr>) = Some P2"
  "id' P1 \<noteq> ''P2''"
  by (simp_all add: currentProvider_def P1_def P2_def)

lemma switchProvider_falsy_live:
  assumes "no_faults w" and "stored_config w = Some config"
    and "currentProvider config = Some p1"
    and "find (\<lambda>p. id' p = ident) (providers config) = Some p2"
    and "id' p1 \<noteq> ident"
    and "files w CLAUDE_SETTINGS_PATH = Some (Doc live)" and "\<not> truthy live"
  shows "\<exists>w'. switchProvider ident w = (Inr p2, w')
      \<and> stored_config w' = Some (config\<lparr>currentProviderId := Some ident\<rparr>)
      \<and> files w' CLAUDE_SETTINGS_PATH = Some (Doc (settingsConfig p2))"
proof -
  from currentProvider_Some[OF assms(3)] obtain k
    where cur: "currentProviderId config = Some (id' p1)" and nonempty: "id' p1 \<noteq> []"
      and k: "findIndex (\<lambda>q. id' q = id' p1) (providers config) = Some k"
    by blast
  from assms(4) obtain t where t: "findIndex (\<lambda>p. id' p = ident) (providers config) = Some t"
    "providers config ! t = p2"
    by (auto dest: find_findIndex)
  have backfill: "truthy_string (currentProviderId config)
      \<and> currentProviderId config \<noteq> Some ident"
    using cur nonempty assms(5) by simp
  have pred: "(\<lambda>p. Some (id' p) = currentProviderId config) = (\<lambda>q. id' q = id' p1)"
    using cur by auto
  define w1 where "w1 = (loaded w)\<lparr>calls := Suc (calls (loaded w))\<rparr>"
  define w2 where "w2 = written ''.providers.json.tmp.'' CONFIG_FILE
    (Doc (ProvidersConfig_json (config\<lparr>currentProviderId := Some ident\<rparr>))) w1"
  define w3 where "w3 = written ''.settings.json.tmp.'' CLAUDE_SETTINGS_PATH
    (Doc (settingsConfig p2)) w2"
  have skipped: "backfillCurrentProvider config (loaded w) = (Inr config, w1)"
    using backfill_falsy[of "loaded w" live config k] assms(1,6,7) backfill k
    by (simp add: pred w1_def)
  have run: "switchProvider ident w = (Inr p2, w3)"
    using assms(1,2) t backfill skipped
    by (simp add: switchProvider_def await_def loadProviders_typed_stored return_def
        saveProviders_Done writeLiveSnapshot_Done w1_def w2_def w3_def Let_def)
  have "stored_config w3 = Some (config\<lparr>currentProviderId := Some ident\<rparr>)"
    by (simp add: w3_def w2_def stored_config_written)
  moreover have "files w3 CLAUDE_SETTINGS_PATH = Some (Doc (settingsConfig p2))"
    by (simp add: w3_def written_def)
  ultimately show ?thesis
    using run by blast
qed

subsection \<open>Removing providers\<close>

lemma length_filter_less_iff: "length (filter P xs) < length xs \<longleftrightarrow> (\<exists>x\<in>set xs. \<not> P x)"
proof (induction xs)
  case Nil
  then show ?case by simp
next
  case (Cons x xs)
  have "length (filter P xs) \<le> length xs" by simp
  with Cons show ?case by auto
qed

lemma filter_all: "(\<forall>x\<in>set xs. P x) \<Longrightarrow> filter P xs = xs"
  by (induction xs) auto

lemma ProvidersConfig_providers_update:
  "config\<lparr>providers := ps\<rparr> = \<lparr>providers = ps, currentProviderId = currentProviderId config\<rparr>"
  by (cases config) simp

lemma removeProvider_once:
  assumes "no_faults w" and "stored_config w = Some config"
  shows "\<exists>w'. removeProvider ident w = (Inr (ident \<in> set (map id' (providers config))), w')
      \<and> no_faults w'
      \<and> stored_config w' = Some
          \<lparr>providers = filter (\<lambda>p. id' p \<noteq> ident) (providers config),
           currentProviderId =
             (if ident \<in> set (map id' (providers config)) \<and> currentProviderId config = Some ident
              then None else currentProviderId config)\<rparr>
      \<and> (ident \<notin> set (map id' (providers config)) \<longrightarrow>
            files w' = files w \<and> temporary_names (trace w') = temporary_names (trace w))
      \<and> (ident \<in> set (map id' (providers config)) \<longrightarrow>
            temporary_names (trace w') = temporary_names (trace w) @
              [tmpPath ''.providers.json.tmp.'' CONFIG_FILE (clock w (ticks w))])"
proof (cases "ident \<in> set (map id' (providers config))")
  case True
  then have less: "length (filter (\<lambda>p. id' p \<noteq> ident) (providers config)) < length (providers config)"
    by (auto simp add: length_filter_less_iff)
  define config' where "config' = \<lparr>providers = filter (\<lambda>p. id' p \<noteq> ident) (providers config),
           currentProviderId =
             (if currentProviderId config = Some ident then None else currentProviderId config)\<rparr>"
  define w' where "w' = written ''.providers.json.tmp.'' CONFIG_FILE
      (Doc (ProvidersConfig_json config')) (loaded w)"
  have run: "removeProvider ident w = (Inr True, w')"
    using assms less
    by (simp add: removeProvider_def await_def loadProviders_typed_stored saveProviders_Done
        return_def Let_def w'_def config'_def ProvidersConfig_updates
        ProvidersConfig_providers_update)
  have "stored_config w' = Some config'"
    by (simp add: w'_def stored_config_written)
  moreover have "temporary_names (trace w') = temporary_names (trace w) @
              [tmpPath ''.providers.json.tmp.'' CONFIG_FILE (clock w (ticks w))]"
    by (simp add: w'_def written_def loaded_def ensured_def)
  moreover have "no_faults w'"
    using assms(1) by (simp add: w'_def)
  ultimately show ?thesis
    using run True by (auto simp add: config'_def)
next
  case False
  then have keep: "filter (\<lambda>p. id' p \<noteq> ident) (providers config) = providers config"
    by (auto intro: filter_all)
  have run: "removeProvider ident w = (Inr False, loaded w)"
    using assms keep
    by (simp add: removeProvider_def await_def loadProviders_typed_stored return_def Let_def)
  have "temporary_names (trace (loaded w)) = temporary_names (trace w)"
    by (simp add: loaded_def ensured_def)
  then show ?thesis
    using run False assms keep by simp
qed

subsection \<open>Adding providers\<close>

lemma ensured_id: "existsSync CONFIG_DIR w \<Longrightarrow> ensured w = w"
  by (simp add: ensured_def)

lemma addProvider_Done:
  assumes "no_faults w" and "stored_config w = Some config"
    and added_def: "added =
     \<lparr>name = name provider, settingsConfig = settingsConfig provider,
      description = description provider, category = category provider,
      icon = icon provider, iconColor = iconColor provider,
      id' = decimal (clock w (ticks w)) @ ''-'' @ random36 w (draws w),
      createdAt = Some (int (clock w (Suc (ticks w))))\<rparr>"
  shows "\<exists>w'. addProvider provider w = (Inr added, w')
      \<and> no_faults w'
      \<and> stored_config w' = Some (config\<lparr>providers := providers config @ [added]\<rparr>)
      \<and> clock w' = clock w \<and> ticks w' = ticks w + 3
      \<and> random36 w' = random36 w \<and> draws w' = Suc (draws w)"
proof -
  define w1 where "w1 = (loaded w)\<lparr>ticks := Suc (ticks w), draws := Suc (draws w),
    ticks := Suc (Suc (ticks w))\<rparr>"
  define w' where "w' = written ''.providers.json.tmp.'' CONFIG_FILE
      (Doc (ProvidersConfig_json (config\<lparr>providers := providers config @ [added]\<rparr>))) w1"
  have dir: "ensured w1 = w1"
    by (rule ensured_id) (simp add: w1_def)
  have nf: "no_faults w1"
    using assms(1) by (simp add: w1_def)
  have save: "saveProviders c w1 = (Inr (), written ''.providers.json.tmp.'' CONFIG_FILE
      (Doc (ProvidersConfig_json c)) w1)" for c
    using saveProviders_Done[OF nf, of c] dir by simp
  have run: "addProvider provider w = (Inr added, w')"
    using assms(1,2) save
    by (simp add: addProvider_def await_def loadProviders_typed_stored generateId_def Date_now_def
        Math_random36_def return_def Let_def w'_def added_def w1_def)
  moreover have "stored_config w' = Some (config\<lparr>providers := providers config @ [added]\<rparr>)"
    by (simp add: w'_def stored_config_written)
  moreover have "no_faults w'" "clock w' = clock w" "ticks w' = ticks w + 3"
    "random36 w' = random36 w" "draws w' = Suc (draws w)"
    using assms(1) by (simp_all add: w'_def w1_def)
  ultimately show ?thesis
    by blast
qed

lemma upt_from_0: "[0..<Suc n] = 0 # map Suc [0..<n]"
  by (simp add: upt_conv_Cons map_Suc_upt del: upt_Suc)

lemma inj_generated_id: "inj (\<lambda>(t, r). decimal t @ ''-'' @ r)"
proof (rule injI)
  fix x y :: "nat \<times> string"
  assume eq: "(\<lambda>(t, r). decimal t @ ''-'' @ r) x = (\<lambda>(t, r). decimal t @ ''-'' @ r) y"
  obtain t r t' r' where "x = (t, r)" "y = (t', r')"
    by (cases x; cases y) blast
  with eq generated_id_inj[of t r t' r'] show "x = y"
    by simp
qed

lemma addMany_ids:
  assumes "no_faults w" and "stored_config w = Some config"
  shows "\<exists>w' added. addMany new w = (Inr added, w')
      \<and> map id' added
          = map (\<lambda>k. decimal (clock w (ticks w + 3 * k)) @ ''-'' @ random36 w (draws w + k))
              [0..<length new]
      \<and> stored_config w' = Some (config\<lparr>providers := providers config @ added\<rparr>)"
  using assms
proof (induction new arbitrary: w config)
  case Nil
  then show ?case
    by (simp add: return_def)
next
  case (Cons provider rest)
  define first where "first =
   \<lparr>name = name provider, settingsConfig = settingsConfig provider,
    description = description provider, category = category provider,
    icon = icon provider, iconColor = iconColor provider,
    id' = decimal (clock w (ticks w)) @ ''-'' @ random36 w (draws w),
    createdAt = Some (int (clock w (Suc (ticks w))))\<rparr>"
  from addProvider_Done[OF Cons.prems first_def] obtain w1
    where one: "addProvider provider w = (Inr first, w1)" "no_faults w1"
      "stored_config w1 = Some (config\<lparr>providers := providers config @ [first]\<rparr>)"
      "clock w1 = clock w" "ticks w1 = ticks w + 3"
      "random36 w1 = random36 w" "draws w1 = Suc (draws w)"
    by blast
  from Cons.IH[OF one(2,3)] obtain w' others
    where more: "addMany rest w1 = (Inr others, w')"
      "map id' others
        = map (\<lambda>k. decimal (clock w1 (ticks w1 + 3 * k)) @ ''-'' @ random36 w1 (draws w1 + k))
            [0..<length rest]"
      "stored_config w' = Some (config\<lparr>providers := providers config @ [first]\<rparr>
          \<lparr>providers := providers (config\<lparr>providers := providers config @ [first]\<rparr>) @ others\<rparr>)"
    by blast
  have "addMany (provider # rest) w = (Inr (first # others), w')"
    using one(1) more(1) by (simp add: await_def return_def)
  moreover have "map id' (first # others)
        = map (\<lambda>k. decimal (clock w (ticks w + 3 * k)) @ ''-'' @ random36 w (draws w + k))
            [0..<length (provider # rest)]"
    using more(2) one(4-7)
    by (simp add: upt_from_0 first_def add.assoc del: upt_Suc) 
  moreover have "stored_config w' = Some (config\<lparr>providers := providers config @ first # others\<rparr>)"
    using more(3) by simp
  ultimately show ?case
    by blast
qed

lemma first_run_simps [simp]:
  "stored_config first_run = Some \<lparr>providers = [], currentProviderId = None\<rparr>"
  "clock first_run n = 1700000000000"
  "random36 first_run n = ''k3x9q2a''"
  "ticks first_run = 0"
  "draws first_run = 0"
  by (simp_all add: stored_config_def first_run_def CONFIG_FILE_def join_def homedir_def)

lemma ticking_simps [simp]:
  "no_faults ticking"
  "stored_config ticking = Some \<lparr>providers = [], currentProviderId = None\<rparr>"
  "clock ticking n = 1700000000000 + n"
  "random36 ticking n = ''k3x9q2a''"
  "ticks ticking = 0"
  "draws ticking = 0"
  by (simp_all add: ticking_def stored_config_def)
     (simp_all add: first_run_def CONFIG_FILE_def join_def homedir_def)

section \<open>Loading the provider store\<close>



text \<open>
  Claim C10.  Neither store checks the shape of what it parsed.  Whatever JSON value the
  backing file holds, of the documented shape or not, \<^verbatim>\<open>loadProviders\<close> and
  \<^verbatim>\<open>loadClaudeSettings\<close> succeed and return that value as it is.  The values \<open>null\<close>, a string
  and an object whose \<open>providers\<close> is not an array are not of the shape \<^verbatim>\<open>ProvidersConfig\<close>,
  a number is not a settings object, and a configuration with a repeated id is loaded with
  the repetition: the witness shows each of them returned unchanged.
\<close>

theorem loads_return_parsed_value_unchecked:
  assumes "no_faults w"
  shows "(files w CONFIG_FILE = Some (Doc j) \<longrightarrow>
            (\<exists>w'. loadProviders w = (Inr j, w') \<and> files w' = files w))
       \<and> (files w CLAUDE_SETTINGS_PATH = Some (Doc j') \<longrightarrow>
            (\<exists>w'. loadClaudeSettings w = (Inr j', w') \<and> files w' = files w))"
proof (intro conjI impI)
  assume "files w CONFIG_FILE = Some (Doc j)"
  with assms have "loadProviders w = (Inr j, loaded w)"
    by (simp add: loadProviders_present JSON_parse_def return_def)
  then show "\<exists>w'. loadProviders w = (Inr j, w') \<and> files w' = files w"
    by simp
next
  assume live: "files w CLAUDE_SETTINGS_PATH = Some (Doc j')"
  with assms have "loadClaudeSettings w = (Inr j', w\<lparr>calls := Suc (calls w)\<rparr>)"
    by (simp add: loadClaudeSettings_def existsSync_def await_def readFile_Done JSON_parse_def
        return_def)
  then show "\<exists>w'. loadClaudeSettings w = (Inr j', w') \<and> files w' = files w"
    by simp
qed

theorem loads_return_parsed_value_unchecked_witness:
  "as_ProvidersConfig JNull = None
   \<and> fst (loadProviders (first_run\<lparr>files := [CONFIG_FILE \<mapsto> Doc JNull]\<rparr>)) = Inr JNull
   \<and> as_ProvidersConfig (JStr ''hello'') = None
   \<and> fst (loadProviders (first_run\<lparr>files := [CONFIG_FILE \<mapsto> Doc (JStr ''hello'')]\<rparr>))
       = Inr (JStr ''hello'')
   \<and> as_ProvidersConfig (JObj [(''providers'', JStr ''none'')]) = None
   \<and> fst (loadProviders
        (first_run\<lparr>files := [CONFIG_FILE \<mapsto> Doc (JObj [(''providers'', JStr ''none'')])]\<rparr>))
       = Inr (JObj [(''providers'', JStr ''none'')])
   \<and> \<not> distinct (map id' [P1, P1])
   \<and> fst (loadProviders (first_run\<lparr>files := [CONFIG_FILE \<mapsto> Doc (ProvidersConfig_json
        \<lparr>providers = [P1, P1], currentProviderId = None\<rparr>)]\<rparr>))
       = Inr (ProvidersConfig_json \<lparr>providers = [P1, P1], currentProviderId = None\<rparr>)
   \<and> \<not> is_ClaudeSettings (JNum 7)
   \<and> fst (loadClaudeSettings (first_run\<lparr>files := [CLAUDE_SETTINGS_PATH \<mapsto> Doc (JNum 7)]\<rparr>))
       = Inr (JNum 7)"
proof -
  have stored: "fst (loadProviders (first_run\<lparr>files := [CONFIG_FILE \<mapsto> Doc j]\<rparr>)) = Inr j" for j
    using loads_return_parsed_value_unchecked
      [of "first_run\<lparr>files := [CONFIG_FILE \<mapsto> Doc j]\<rparr>" j]
    by auto
  have live: "fst (loadClaudeSettings (first_run\<lparr>files := [CLAUDE_SETTINGS_PATH \<mapsto> Doc j]\<rparr>))
      = Inr j" for j
    using loads_return_parsed_value_unchecked
      [of "first_run\<lparr>files := [CLAUDE_SETTINGS_PATH \<mapsto> Doc j]\<rparr>" _ j]
    by auto
  have shapes: "as_ProvidersConfig JNull = None" "as_ProvidersConfig (JStr ''hello'') = None"
    "as_ProvidersConfig (JObj [(''providers'', JStr ''none'')]) = None"
    by (simp_all add: as_ProvidersConfig_def declared_members_def)
  show ?thesis
    by (simp add: stored live shapes)
qed

section \<open>The atomic write\<close>

text \<open>
  Claim C3.  Let \<^verbatim>\<open>atomicWrite\<close> (either copy: the prefix of the temporary name is the only
  difference) be called for a target \<open>p\<close> that is not itself the temporary file, as is the
  case for both stores' files, and let its \<^verbatim>\<open>writeFile\<close> fail, or its \<^verbatim>\<open>writeFile\<close> succeed
  and its \<^verbatim>\<open>rename\<close> fail, with an error \<open>e\<close>.  Then the call throws exactly \<open>e\<close>, whatever
  becomes of the cleanup; the target and every file other than the temporary one are as
  before (a missing target is still missing); the temporary file is gone or the last
  thing done was the attempt to delete it; and it is gone whenever that attempt succeeds.
\<close>

theorem atomicWrite_failure_keeps_target:
  assumes "tmpPath pre p (clock w (ticks w)) \<noteq> p"
    and "failure (faults w (calls w)) = Some e
         \<or> faults w (calls w) = Done \<and> failure (faults w (Suc (calls w))) = Some e"
  shows "\<exists>w'. atomicWrite_with pre p data w = (Inl e, w')
      \<and> files w' p = files w p
      \<and> (\<forall>q. q \<noteq> tmpPath pre p (clock w (ticks w)) \<longrightarrow> files w' q = files w q)
      \<and> (files w' (tmpPath pre p (clock w (ticks w))) = None
           \<or> last (trace w') = Unlink (tmpPath pre p (clock w (ticks w))))
      \<and> (failure (faults w (calls w)) = Some e \<and> faults w (Suc (calls w)) = Done
            \<longrightarrow> files w' (tmpPath pre p (clock w (ticks w))) = None)
      \<and> (faults w (calls w) = Done \<and> faults w (Suc (Suc (calls w))) = Done
            \<longrightarrow> files w' (tmpPath pre p (clock w (ticks w))) = None)"
proof -
  from assms(2) show ?thesis
  proof (elim disjE conjE)
    assume write_fails: "failure (faults w (calls w)) = Some e"
    then have "faults w (calls w) \<noteq> Done"
      by auto
    with atomicWrite_with_write_fails[OF assms(1) write_fails, of data] assms(1)
    show ?thesis
      by (metis (lifting))
  next
    assume written: "faults w (calls w) = Done"
      and rename_fails: "failure (faults w (Suc (calls w))) = Some e"
    from written have "failure (faults w (calls w)) \<noteq> Some e"
      by simp
    with atomicWrite_with_rename_fails[OF assms(1) written rename_fails, of data] assms(1)
    show ?thesis
      by (metis (lifting))
  qed
qed

theorem atomicWrite_failure_keeps_target_witness:
  "fst (providers_atomicWrite CONFIG_FILE (Doc JNull) torn_write) = Inl (IOError ''ENOSPC'')
   \<and> files (snd (providers_atomicWrite CONFIG_FILE (Doc JNull) torn_write)) CONFIG_FILE
       = files installed CONFIG_FILE
   \<and> fst (settings_atomicWrite CLAUDE_SETTINGS_PATH (Doc JNull) failed_rename)
       = Inl (IOError ''EACCES'')
   \<and> files (snd (settings_atomicWrite CLAUDE_SETTINGS_PATH (Doc JNull) failed_rename))
         CLAUDE_SETTINGS_PATH = Some (Doc live_edit)
   \<and> files (snd (settings_atomicWrite CLAUDE_SETTINGS_PATH (Doc JNull) failed_rename))
         (tmpPath ''.settings.json.tmp.'' CLAUDE_SETTINGS_PATH 1700000000000) = None"
proof -
  have torn: "failure (faults torn_write (calls torn_write)) = Some (IOError ''ENOSPC'')"
    by (simp add: torn_write_def installed_def first_run_def)
  have renamed: "faults failed_rename (calls failed_rename) = Done"
    "failure (faults failed_rename (Suc (calls failed_rename))) = Some (IOError ''EACCES'')"
    "faults failed_rename (Suc (Suc (calls failed_rename))) = Done"
    "clock failed_rename (ticks failed_rename) = 1700000000000"
    by (simp_all add: failed_rename_def installed_def first_run_def)
  have before: "files torn_write CONFIG_FILE = files installed CONFIG_FILE"
    "files failed_rename CLAUDE_SETTINGS_PATH = Some (Doc live_edit)"
    by (simp_all add: torn_write_def failed_rename_def installed_def)
  from atomicWrite_failure_keeps_target
    [of "''.providers.json.tmp.''" CONFIG_FILE torn_write "IOError ''ENOSPC''" "Doc JNull"]
    torn before
  have first: "fst (providers_atomicWrite CONFIG_FILE (Doc JNull) torn_write)
        = Inl (IOError ''ENOSPC'')
      \<and> files (snd (providers_atomicWrite CONFIG_FILE (Doc JNull) torn_write)) CONFIG_FILE
        = files installed CONFIG_FILE"
    by (auto simp add: providers_atomicWrite_def)
  from atomicWrite_failure_keeps_target
    [of "''.settings.json.tmp.''" CLAUDE_SETTINGS_PATH failed_rename "IOError ''EACCES''"
      "Doc JNull"]
    renamed before
  have second: "fst (settings_atomicWrite CLAUDE_SETTINGS_PATH (Doc JNull) failed_rename)
       = Inl (IOError ''EACCES'')
   \<and> files (snd (settings_atomicWrite CLAUDE_SETTINGS_PATH (Doc JNull) failed_rename))
         CLAUDE_SETTINGS_PATH = Some (Doc live_edit)
   \<and> files (snd (settings_atomicWrite CLAUDE_SETTINGS_PATH (Doc JNull) failed_rename))
         (tmpPath ''.settings.json.tmp.'' CLAUDE_SETTINGS_PATH 1700000000000) = None"
    by (auto simp add: settings_atomicWrite_def)
  from first second show ?thesis
    by simp
qed

text \<open>
  Claim C7 says that any two invocations of \<^verbatim>\<open>atomicWrite\<close> choose distinct temporary
  names.  The name is the fixed prefix followed by \<^verbatim>\<open>Date.now()\<close>, so two invocations of the
  same copy within one millisecond choose the same name: here two \<^verbatim>\<open>saveProviders\<close> in a
  row, on a clock that stands at 1700000000000, both write to
  \<^verbatim>\<open>~/.cc/.providers.json.tmp.1700000000000\<close>.
\<close>

theorem atomicWrite_temporary_names_collide:
  "temporary_names (trace (snd
      (await (saveProviders \<lparr>providers = [P1], currentProviderId = None\<rparr>)
         (\<lambda>_. saveProviders \<lparr>providers = [P1, P2], currentProviderId = None\<rparr>) installed)))
   = [[''~'', ''.cc'', ''.providers.json.tmp.1700000000000''],
      [''~'', ''.cc'', ''.providers.json.tmp.1700000000000'']]"
proof -
  have name: "tmpPath ''.providers.json.tmp.'' CONFIG_FILE 1700000000000
      = [''~'', ''.cc'', ''.providers.json.tmp.1700000000000'']"
    by (simp add: tmpPath_def CONFIG_FILE_def CONFIG_DIR_def homedir_def join_def dirname_def
        decimal_example)
  show ?thesis
    by (simp add: await_def saveProviders_Done written_def ensured_def name)
qed

text \<open>
  Claim C7, amended.  Every invocation of \<^verbatim>\<open>atomicWrite\<close> writes to one temporary file,
  and two invocations (of either copy, for any targets, in any two worlds) choose the same
  name exactly when they are invocations of the same copy, their targets lie in the same
  directory, and they read the same value of \<^verbatim>\<open>Date.now()\<close>; in every other case the names
  are distinct.
\<close>

theorem atomicWrite_temporary_names_distinct:
  assumes "pre1 \<in> {''.settings.json.tmp.'', ''.providers.json.tmp.''}"
    and "pre2 \<in> {''.settings.json.tmp.'', ''.providers.json.tmp.''}"
  shows "\<exists>tmp1 tmp2.
      temporary_names (trace (snd (atomicWrite_with pre1 p1 data1 w1)))
        = temporary_names (trace w1) @ [tmp1]
    \<and> temporary_names (trace (snd (atomicWrite_with pre2 p2 data2 w2)))
        = temporary_names (trace w2) @ [tmp2]
    \<and> (tmp1 = tmp2 \<longleftrightarrow>
         pre1 = pre2 \<and> dirname p1 = dirname p2 \<and> clock w1 (ticks w1) = clock w2 (ticks w2))"
proof -
  have apart: "''.settings.json.tmp.'' @ decimal a \<noteq> ''.providers.json.tmp.'' @ decimal b" for a b
    by simp
  have "tmpPath pre1 p1 (clock w1 (ticks w1)) = tmpPath pre2 p2 (clock w2 (ticks w2)) \<longleftrightarrow>
        pre1 = pre2 \<and> dirname p1 = dirname p2 \<and> clock w1 (ticks w1) = clock w2 (ticks w2)"
    using assms apart[of "clock w1 (ticks w1)" "clock w2 (ticks w2)"]
      apart[of "clock w2 (ticks w2)" "clock w1 (ticks w1)"]
    by (auto simp add: tmpPath_def join_def decimal_inj)
  then show ?thesis
    using atomicWrite_with_temporary_name[of pre1 p1 data1 w1]
      atomicWrite_with_temporary_name[of pre2 p2 data2 w2]
    by blast
qed

theorem atomicWrite_temporary_names_distinct_witness:
  "temporary_names (trace (snd (settings_atomicWrite CLAUDE_SETTINGS_PATH (Doc JNull) installed)))
   \<noteq> temporary_names (trace (snd (providers_atomicWrite CONFIG_FILE (Doc JNull) installed)))"
proof -
  have "''.settings.json.tmp.'' \<noteq> ''.providers.json.tmp.''"
    by simp
  with atomicWrite_temporary_names_distinct
    [of "''.settings.json.tmp.''" "''.providers.json.tmp.''" CLAUDE_SETTINGS_PATH "Doc JNull"
      installed CONFIG_FILE "Doc JNull" installed]
  show ?thesis
    by (auto simp add: settings_atomicWrite_def providers_atomicWrite_def)
qed

section \<open>Switching the provider\<close>

text \<open>
  Claim C1 says that the backfill happens whenever the live settings file is present.
  \<^verbatim>\<open>backfillCurrentProvider\<close> returns early on \<^verbatim>\<open>if (!liveSettings)\<close>, so a live file that
  is present and holds \<open>null\<close> (or \<open>false\<close>, \<open>0\<close>, the empty string) is not backfilled: with
  \<open>P1\<close> current and the live file holding \<open>null\<close>, or holding \<open>0\<close>, switching to \<open>P2\<close>
  succeeds and the store still has \<open>P1\<close> with its old \<open>settingsConfig\<close>, which is not the
  content of the live file.
\<close>

theorem switchProvider_present_live_file_not_backfilled:
  "files (installed_with JNull) CLAUDE_SETTINGS_PATH = Some (Doc JNull)
   \<and> fst (switchProvider ''P2'' (installed_with JNull)) = Inr P2
   \<and> stored_config (snd (switchProvider ''P2'' (installed_with JNull)))
       = Some \<lparr>providers = [P1, P2], currentProviderId = Some ''P2''\<rparr>
   \<and> files (installed_with (JNum 0)) CLAUDE_SETTINGS_PATH = Some (Doc (JNum 0))
   \<and> fst (switchProvider ''P2'' (installed_with (JNum 0))) = Inr P2
   \<and> stored_config (snd (switchProvider ''P2'' (installed_with (JNum 0))))
       = Some \<lparr>providers = [P1, P2], currentProviderId = Some ''P2''\<rparr>
   \<and> settingsConfig P1 \<noteq> JNull \<and> settingsConfig P1 \<noteq> JNum 0"
proof -
  have skipped: "fst (switchProvider ''P2'' (installed_with j)) = Inr P2
      \<and> stored_config (snd (switchProvider ''P2'' (installed_with j)))
          = Some \<lparr>providers = [P1, P2], currentProviderId = Some ''P2''\<rparr>"
    if "\<not> truthy j" for j
    using switchProvider_falsy_live
      [OF installed_with_simps(1,2) scenario installed_with_simps(3) that]
    by auto
  have old: "settingsConfig P1 \<noteq> JNull \<and> settingsConfig P1 \<noteq> JNum 0"
    by (simp add: P1_def)
  from skipped[of JNull] skipped[of "JNum 0"] old show ?thesis
    by simp
qed

text \<open>
  Claim C1, amended.  Let the store hold a configuration whose current provider is \<open>P1\<close>
  (the one \<^verbatim>\<open>getCurrentProvider\<close> finds), let the target id be that of a stored provider
  \<open>P2\<close> and differ from \<open>P1\<close>'s, and let no file-system call fail.  If the live settings
  file exists and holds any JSON value other than \<open>null\<close>, \<open>false\<close>, \<open>0\<close> and the empty
  string, \<^verbatim>\<open>switchProvider\<close> returns \<open>P2\<close>; the stored configuration afterwards is the old
  one with \<open>P1\<close>'s \<open>settingsConfig\<close> replaced by the whole content of the live file and
  \<^verbatim>\<open>currentProviderId\<close> set to the target; the live file holds exactly \<open>P2\<close>'s
  \<open>settingsConfig\<close>; and the file-system calls made are, in this order, one write and
  rename of the whole configuration (backfill and pointer together) and then the write
  and rename of the live file.  If the live settings file holds one of those four values,
  or does not exist, the backfill is skipped without an error: the stored configuration
  changes in \<^verbatim>\<open>currentProviderId\<close> only, and the live file is written with \<open>P2\<close>'s
  \<open>settingsConfig\<close>.
\<close>

theorem switchProvider_backfills_then_switches:
  assumes "no_faults w" and "stored_config w = Some config"
    and "currentProvider config = Some p1"
    and "find (\<lambda>p. id' p = ident) (providers config) = Some p2"
    and "id' p1 \<noteq> ident"
  shows "(files w CLAUDE_SETTINGS_PATH = Some (Doc live) \<and> truthy live \<longrightarrow>
      (\<exists>w' k config'. switchProvider ident w = (Inr p2, w')
         \<and> findIndex (\<lambda>p. id' p = id' p1) (providers config) = Some k
         \<and> config' = \<lparr>providers = (providers config)[k := p1\<lparr>settingsConfig := live\<rparr>],
                       currentProviderId = Some ident\<rparr>
         \<and> stored_config w' = Some config'
         \<and> find (\<lambda>p. id' p = id' p1) (providers config') = Some (p1\<lparr>settingsConfig := live\<rparr>)
         \<and> files w' CLAUDE_SETTINGS_PATH = Some (Doc (settingsConfig p2))
         \<and> trace w' = trace w @ (if existsSync CONFIG_DIR w then [] else [Mkdir CONFIG_DIR]) @
             [WriteFile (tmpPath ''.providers.json.tmp.'' CONFIG_FILE (clock w (ticks w)))
                (Doc (ProvidersConfig_json config')),
              Rename (tmpPath ''.providers.json.tmp.'' CONFIG_FILE (clock w (ticks w))) CONFIG_FILE,
              WriteFile (tmpPath ''.settings.json.tmp.'' CLAUDE_SETTINGS_PATH
                 (clock w (Suc (ticks w)))) (Doc (settingsConfig p2)),
              Rename (tmpPath ''.settings.json.tmp.'' CLAUDE_SETTINGS_PATH
                 (clock w (Suc (ticks w)))) CLAUDE_SETTINGS_PATH]))
    \<and> (files w CLAUDE_SETTINGS_PATH = Some (Doc live) \<and> \<not> truthy live \<longrightarrow>
      (\<exists>w'. switchProvider ident w = (Inr p2, w')
         \<and> stored_config w' = Some (config\<lparr>currentProviderId := Some ident\<rparr>)
         \<and> files w' CLAUDE_SETTINGS_PATH = Some (Doc (settingsConfig p2))))
    \<and> (\<not> existsSync CLAUDE_SETTINGS_PATH w \<longrightarrow>
      (\<exists>w'. switchProvider ident w = (Inr p2, w')
         \<and> stored_config w' = Some (config\<lparr>currentProviderId := Some ident\<rparr>)
         \<and> files w' CLAUDE_SETTINGS_PATH = Some (Doc (settingsConfig p2))))"
proof -
  from currentProvider_Some[OF assms(3)] obtain k
    where cur: "currentProviderId config = Some (id' p1)" and nonempty: "id' p1 \<noteq> []"
      and k: "findIndex (\<lambda>q. id' q = id' p1) (providers config) = Some k"
        "k < length (providers config)" "providers config ! k = p1"
    by blast
  from assms(4) obtain t where t: "findIndex (\<lambda>p. id' p = ident) (providers config) = Some t"
    "t < length (providers config)" "providers config ! t = p2" "id' p2 = ident"
    by (auto dest: find_findIndex)
  from k(3) t(3,4) assms(5) have apart: "t \<noteq> k"
    by auto
  have backfill: "truthy_string (currentProviderId config)
      \<and> currentProviderId config \<noteq> Some ident"
    using cur nonempty assms(5) by simp
  have pred: "(\<lambda>p. Some (id' p) = currentProviderId config) = (\<lambda>q. id' q = id' p1)"
    using cur by auto
  show ?thesis
  proof (intro conjI impI)
    assume live: "files w CLAUDE_SETTINGS_PATH = Some (Doc live) \<and> truthy live"
    define config' where "config' = \<lparr>providers = (providers config)[k := p1\<lparr>settingsConfig := live\<rparr>],
                       currentProviderId = Some ident\<rparr>"
    define w1 where "w1 = (loaded w)\<lparr>calls := Suc (calls (loaded w))\<rparr>"
    define w2 where "w2 = written ''.providers.json.tmp.'' CONFIG_FILE
      (Doc (ProvidersConfig_json config')) w1"
    define w3 where "w3 = written ''.settings.json.tmp.'' CLAUDE_SETTINGS_PATH
      (Doc (settingsConfig p2)) w2"
    have filled: "backfillCurrentProvider config (loaded w) =
        (Inr (config\<lparr>providers := (providers config)[k := p1\<lparr>settingsConfig := live\<rparr>]\<rparr>), w1)"
      using backfill_present[of "loaded w" live config k] assms(1) live backfill k
      by (simp add: pred w1_def)
    have target: "((providers config)[k := p1\<lparr>settingsConfig := live\<rparr>]) ! t = p2"
      using apart t(3) by simp
    have run: "switchProvider ident w = (Inr p2, w3)"
      using assms(1,2) t(1) backfill filled target
      by (simp add: switchProvider_def await_def loadProviders_typed_stored return_def
          saveProviders_Done writeLiveSnapshot_Done w1_def w2_def w3_def config'_def Let_def
          ProvidersConfig_updates)
    have stored: "stored_config w3 = Some config'"
      by (simp add: w3_def w2_def stored_config_written)
    have found: "find (\<lambda>p. id' p = id' p1) (providers config') = Some (p1\<lparr>settingsConfig := live\<rparr>)"
      using k(1) by (simp add: config'_def find_update_first)
    have live': "files w3 CLAUDE_SETTINGS_PATH = Some (Doc (settingsConfig p2))"
      by (simp add: w3_def written_def)
    have order: "trace w3 = trace w @ (if existsSync CONFIG_DIR w then [] else [Mkdir CONFIG_DIR]) @
             [WriteFile (tmpPath ''.providers.json.tmp.'' CONFIG_FILE (clock w (ticks w)))
                (Doc (ProvidersConfig_json config')),
              Rename (tmpPath ''.providers.json.tmp.'' CONFIG_FILE (clock w (ticks w))) CONFIG_FILE,
              WriteFile (tmpPath ''.settings.json.tmp.'' CLAUDE_SETTINGS_PATH
                 (clock w (Suc (ticks w)))) (Doc (settingsConfig p2)),
              Rename (tmpPath ''.settings.json.tmp.'' CLAUDE_SETTINGS_PATH
                 (clock w (Suc (ticks w)))) CLAUDE_SETTINGS_PATH]"
      by (simp add: w3_def w2_def w1_def written_def loaded_def ensured_def)
    from run k(1) stored found live' order
    show "\<exists>w' k config'. switchProvider ident w = (Inr p2, w')
         \<and> findIndex (\<lambda>p. id' p = id' p1) (providers config) = Some k
         \<and> config' = \<lparr>providers = (providers config)[k := p1\<lparr>settingsConfig := live\<rparr>],
                       currentProviderId = Some ident\<rparr>
         \<and> stored_config w' = Some config'
         \<and> find (\<lambda>p. id' p = id' p1) (providers config') = Some (p1\<lparr>settingsConfig := live\<rparr>)
         \<and> files w' CLAUDE_SETTINGS_PATH = Some (Doc (settingsConfig p2))
         \<and> trace w' = trace w @ (if existsSync CONFIG_DIR w then [] else [Mkdir CONFIG_DIR]) @
             [WriteFile (tmpPath ''.providers.json.tmp.'' CONFIG_FILE (clock w (ticks w)))
                (Doc (ProvidersConfig_json config')),
              Rename (tmpPath ''.providers.json.tmp.'' CONFIG_FILE (clock w (ticks w))) CONFIG_FILE,
              WriteFile (tmpPath ''.settings.json.tmp.'' CLAUDE_SETTINGS_PATH
                 (clock w (Suc (ticks w)))) (Doc (settingsConfig p2)),
              Rename (tmpPath ''.settings.json.tmp.'' CLAUDE_SETTINGS_PATH
                 (clock w (Suc (ticks w)))) CLAUDE_SETTINGS_PATH]"
      unfolding config'_def by blast
  next
    assume falsy: "files w CLAUDE_SETTINGS_PATH = Some (Doc live) \<and> \<not> truthy live"
    then have "files w CLAUDE_SETTINGS_PATH = Some (Doc live)" and "\<not> truthy live"
      by simp_all
    from switchProvider_falsy_live[OF assms this]
    show "\<exists>w'. switchProvider ident w = (Inr p2, w')
         \<and> stored_config w' = Some (config\<lparr>currentProviderId := Some ident\<rparr>)
         \<and> files w' CLAUDE_SETTINGS_PATH = Some (Doc (settingsConfig p2))" .
  next
    assume absent: "\<not> existsSync CLAUDE_SETTINGS_PATH w"
    define config' where "config' = config\<lparr>currentProviderId := Some ident\<rparr>"
    define w2 where "w2 = written ''.providers.json.tmp.'' CONFIG_FILE
      (Doc (ProvidersConfig_json config')) (loaded w)"
    define w3 where "w3 = written ''.settings.json.tmp.'' CLAUDE_SETTINGS_PATH
      (Doc (settingsConfig p2)) w2"
    have absent': "\<not> existsSync CLAUDE_SETTINGS_PATH (loaded w)"
      using absent
      by (auto simp add: loaded_def ensured_def existsSync_def CLAUDE_SETTINGS_PATH_def
          CONFIG_DIR_def join_def homedir_def)
    have run: "switchProvider ident w = (Inr p2, w3)"
      using assms(1,2) t(1,3) backfill backfill_absent[OF absent', of config]
      by (simp add: switchProvider_def await_def loadProviders_typed_stored return_def
          saveProviders_Done writeLiveSnapshot_Done w2_def w3_def config'_def Let_def)
    have "stored_config w3 = Some config'"
      by (simp add: w3_def w2_def stored_config_written)
    moreover have "files w3 CLAUDE_SETTINGS_PATH = Some (Doc (settingsConfig p2))"
      by (simp add: w3_def written_def)
    ultimately show "\<exists>w'. switchProvider ident w = (Inr p2, w')
         \<and> stored_config w' = Some (config\<lparr>currentProviderId := Some ident\<rparr>)
         \<and> files w' CLAUDE_SETTINGS_PATH = Some (Doc (settingsConfig p2))"
      using run unfolding config'_def by blast
  qed
qed

theorem switchProvider_backfills_then_switches_witness:
  "fst (switchProvider ''P2'' installed) = Inr P2
   \<and> stored_config (snd (switchProvider ''P2'' installed))
       = Some \<lparr>providers = [P1\<lparr>settingsConfig := live_edit\<rparr>, P2],
                currentProviderId = Some ''P2''\<rparr>
   \<and> files (snd (switchProvider ''P2'' installed)) CLAUDE_SETTINGS_PATH
       = Some (Doc (settingsConfig P2))
   \<and> fst (switchProvider ''P2'' (installed\<lparr>files := (files installed)(CLAUDE_SETTINGS_PATH := None)\<rparr>))
       = Inr P2
   \<and> stored_config (snd (switchProvider ''P2''
         (installed\<lparr>files := (files installed)(CLAUDE_SETTINGS_PATH := None)\<rparr>)))
       = Some \<lparr>providers = [P1, P2], currentProviderId = Some ''P2''\<rparr>
   \<and> stored_config (snd (switchProvider ''P2'' (installed_with (JArr []))))
       = Some \<lparr>providers = [P1\<lparr>settingsConfig := JArr []\<rparr>, P2],
                currentProviderId = Some ''P2''\<rparr>
   \<and> stored_config (snd (switchProvider ''P2'' (installed_with (JBool False))))
       = Some \<lparr>providers = [P1, P2], currentProviderId = Some ''P2''\<rparr>"
proof -
  note current = scenario(1) and target = scenario(2) and differ = scenario(3)
  have position: "findIndex (\<lambda>p. id' p = id' P1) [P1, P2] = Some k \<longleftrightarrow> k = 0" for k
    by auto
  have live: "truthy live_edit"
    by (simp add: live_edit_def)
  from switchProvider_backfills_then_switches
    [OF installed_with_simps(1)[of "JArr []"] installed_with_simps(2)[of "JArr []"] current
      target differ, of "JArr []"] installed_with_simps(3)[of "JArr []"] position
  have third: "stored_config (snd (switchProvider ''P2'' (installed_with (JArr []))))
       = Some \<lparr>providers = [P1\<lparr>settingsConfig := JArr []\<rparr>, P2],
                currentProviderId = Some ''P2''\<rparr>"
    by auto
  from switchProvider_backfills_then_switches
    [OF installed_with_simps(1)[of "JBool False"] installed_with_simps(2)[of "JBool False"]
      current target differ, of "JBool False"] installed_with_simps(3)[of "JBool False"]
  have fourth: "stored_config (snd (switchProvider ''P2'' (installed_with (JBool False))))
       = Some \<lparr>providers = [P1, P2], currentProviderId = Some ''P2''\<rparr>"
    by auto
  let ?bare = "installed\<lparr>files := (files installed)(CLAUDE_SETTINGS_PATH := None)\<rparr>"
  have bare: "no_faults ?bare"
    "stored_config ?bare = Some \<lparr>providers = [P1, P2], currentProviderId = Some ''P1''\<rparr>"
    "\<not> existsSync CLAUDE_SETTINGS_PATH ?bare"
    by (simp_all add: stored_config_def existsSync_def)
      (simp add: installed_def first_run_def CLAUDE_SETTINGS_PATH_def dirname_def join_def
        CONFIG_DIR_def homedir_def)
  from switchProvider_backfills_then_switches
    [OF installed_simps(1) stored_config_installed current target differ, of live_edit]
    live position
  have first: "fst (switchProvider ''P2'' installed) = Inr P2
   \<and> stored_config (snd (switchProvider ''P2'' installed))
       = Some \<lparr>providers = [P1\<lparr>settingsConfig := live_edit\<rparr>, P2],
                currentProviderId = Some ''P2''\<rparr>
   \<and> files (snd (switchProvider ''P2'' installed)) CLAUDE_SETTINGS_PATH
       = Some (Doc (settingsConfig P2))"
    by auto
  from switchProvider_backfills_then_switches [OF bare(1,2) current target differ, of live_edit]
    bare(3)
  have second: "fst (switchProvider ''P2'' ?bare) = Inr P2
   \<and> stored_config (snd (switchProvider ''P2'' ?bare))
       = Some \<lparr>providers = [P1, P2], currentProviderId = Some ''P2''\<rparr>"
    by auto
  from first second third fourth show ?thesis
    by simp
qed

text \<open>
  Claim C2.  When the store holds a configuration in which no provider has the given id
  and no file-system call fails, \<^verbatim>\<open>switchProvider\<close> throws
  \<^verbatim>\<open>Error("Provider <id> not found")\<close> (the spec's NotFoundError); afterwards every file is
  as before, in particular the store's file and the live settings file, the stored
  configuration is the same, and no file was written to.
\<close>

theorem switchProvider_unknown_id:
  assumes "no_faults w" and "stored_config w = Some config"
    and "ident \<notin> set (map id' (providers config))"
  shows "\<exists>w'. switchProvider ident w = (Inl (Error (''Provider '' @ ident @ '' not found'')), w')
      \<and> files w' = files w \<and> stored_config w' = Some config
      \<and> temporary_names (trace w') = temporary_names (trace w)"
proof -
  from assms(3) have "findIndex (\<lambda>p. id' p = ident) (providers config) = None"
    by (auto simp add: findIndex_None)
  with assms(1,2)
  have "switchProvider ident w = (Inl (Error (''Provider '' @ ident @ '' not found'')), loaded w)"
    by (simp add: switchProvider_def await_def loadProviders_typed_stored throw_def)
  moreover have "temporary_names (trace (loaded w)) = temporary_names (trace w)"
    by (simp add: loaded_def ensured_def)
  ultimately show ?thesis
    using assms(2) by simp
qed

theorem switchProvider_unknown_id_witness:
  "fst (switchProvider ''ghost'' installed) = Inl (Error ''Provider ghost not found'')
   \<and> files (snd (switchProvider ''ghost'' installed)) = files installed"
proof -
  have unknown: "''ghost'' \<notin> set (map id' (providers \<lparr>providers = [P1, P2],
      currentProviderId = Some ''P1''\<rparr>))"
    by (simp add: P1_def P2_def)
  from switchProvider_unknown_id[OF installed_simps(1) stored_config_installed unknown]
  show ?thesis
    by auto
qed

text \<open>
  Claim C9.  When \<^verbatim>\<open>currentProviderId\<close> already is the target id (and that provider is
  stored, and no file-system call fails), \<^verbatim>\<open>switchProvider\<close> does no backfill: whatever the
  live settings file held before (nothing is assumed about it), the stored configuration
  afterwards is the one stored before, and the live file holds the target's stored
  \<open>settingsConfig\<close>.  An edit made to the live file is therefore lost, as in the witness:
  the live file held \<open>live_edit\<close>, and afterwards it holds \<open>P1\<close>'s stored settings while the
  store still has \<open>P1\<close> without the edit.
\<close>

theorem switchProvider_to_current:
  assumes "no_faults w" and "stored_config w = Some config"
    and "currentProviderId config = Some ident"
    and "find (\<lambda>p. id' p = ident) (providers config) = Some target"
  shows "\<exists>w'. switchProvider ident w = (Inr target, w')
      \<and> stored_config w' = Some config
      \<and> files w' CLAUDE_SETTINGS_PATH = Some (Doc (settingsConfig target))
      \<and> temporary_names (trace w') = temporary_names (trace w) @
           [tmpPath ''.providers.json.tmp.'' CONFIG_FILE (clock w (ticks w)),
            tmpPath ''.settings.json.tmp.'' CLAUDE_SETTINGS_PATH (clock w (Suc (ticks w)))]"
proof -
  from assms(4) obtain k where k: "findIndex (\<lambda>p. id' p = ident) (providers config) = Some k"
    "providers config ! k = target"
    by (auto dest: find_findIndex)
  from assms(3) have same: "config\<lparr>currentProviderId := Some ident\<rparr> = config"
    by simp
  define w1 where "w1 = written ''.providers.json.tmp.'' CONFIG_FILE
    (Doc (ProvidersConfig_json config)) (loaded w)"
  define w2 where "w2 = written ''.settings.json.tmp.'' CLAUDE_SETTINGS_PATH
    (Doc (settingsConfig target)) w1"
  have run: "switchProvider ident w = (Inr target, w2)"
    using assms(1,2,3) k
    by (simp add: switchProvider_def await_def loadProviders_typed_stored return_def
        saveProviders_Done writeLiveSnapshot_Done w1_def w2_def Let_def same)
  have stored: "stored_config w2 = Some config"
    by (simp add: w2_def w1_def stored_config_written)
  have live: "files w2 CLAUDE_SETTINGS_PATH = Some (Doc (settingsConfig target))"
    by (simp add: w2_def written_def)
  have names: "temporary_names (trace w2) = temporary_names (trace w) @
           [tmpPath ''.providers.json.tmp.'' CONFIG_FILE (clock w (ticks w)),
            tmpPath ''.settings.json.tmp.'' CLAUDE_SETTINGS_PATH (clock w (Suc (ticks w)))]"
    by (simp add: w2_def w1_def written_def loaded_def ensured_def)
  from run stored live names show ?thesis
    by blast
qed

theorem switchProvider_to_current_witness:
  "files installed CLAUDE_SETTINGS_PATH = Some (Doc live_edit)
   \<and> live_edit \<noteq> settingsConfig P1
   \<and> fst (switchProvider ''P1'' installed) = Inr P1
   \<and> stored_config (snd (switchProvider ''P1'' installed))
       = Some \<lparr>providers = [P1, P2], currentProviderId = Some ''P1''\<rparr>
   \<and> files (snd (switchProvider ''P1'' installed)) CLAUDE_SETTINGS_PATH
       = Some (Doc (settingsConfig P1))"
proof -
  have target: "find (\<lambda>p. id' p = ''P1'') (providers \<lparr>providers = [P1, P2],
      currentProviderId = Some ''P1''\<rparr>) = Some P1"
    by (simp add: P1_def)
  have edited: "live_edit \<noteq> settingsConfig P1"
    by (simp add: live_edit_def P1_def)
  from switchProvider_to_current[OF installed_simps(1) stored_config_installed _ target]
  have "fst (switchProvider ''P1'' installed) = Inr P1
   \<and> stored_config (snd (switchProvider ''P1'' installed))
       = Some \<lparr>providers = [P1, P2], currentProviderId = Some ''P1''\<rparr>
   \<and> files (snd (switchProvider ''P1'' installed)) CLAUDE_SETTINGS_PATH
       = Some (Doc (settingsConfig P1))"
    by auto
  with edited show ?thesis
    by simp
qed

section \<open>Removing and updating providers\<close>

text \<open>
  Claim C4.  For every stored configuration (and no failing file-system call),
  \<^verbatim>\<open>removeProvider\<close> returns whether a provider with the id was stored; afterwards the store
  holds the configuration without the providers of that id, with \<^verbatim>\<open>currentProviderId\<close>
  cleared when something was removed and it was that id, and unchanged otherwise; when
  nothing was removed no file is written and all files are as before, and when something
  was removed the configuration is written once; a second \<^verbatim>\<open>removeProvider\<close> of the same id
  returns false and leaves the files and the stored configuration as they are.
\<close>

theorem removeProvider_reports_and_clears:
  assumes "no_faults w" and "stored_config w = Some config"
  shows "\<exists>w'. removeProvider ident w = (Inr (ident \<in> set (map id' (providers config))), w')
      \<and> stored_config w' = Some
          \<lparr>providers = filter (\<lambda>p. id' p \<noteq> ident) (providers config),
           currentProviderId =
             (if ident \<in> set (map id' (providers config)) \<and> currentProviderId config = Some ident
              then None else currentProviderId config)\<rparr>
      \<and> (ident \<notin> set (map id' (providers config)) \<longrightarrow>
            files w' = files w \<and> temporary_names (trace w') = temporary_names (trace w))
      \<and> (ident \<in> set (map id' (providers config)) \<longrightarrow>
            temporary_names (trace w') = temporary_names (trace w) @
              [tmpPath ''.providers.json.tmp.'' CONFIG_FILE (clock w (ticks w))])
      \<and> (\<exists>w''. removeProvider ident w' = (Inr False, w'') \<and> files w'' = files w'
            \<and> stored_config w'' = stored_config w')"
proof -
  from removeProvider_once[OF assms, of ident] obtain w'
    where first: "removeProvider ident w = (Inr (ident \<in> set (map id' (providers config))), w')"
      "no_faults w'"
      "stored_config w' = Some
          \<lparr>providers = filter (\<lambda>p. id' p \<noteq> ident) (providers config),
           currentProviderId =
             (if ident \<in> set (map id' (providers config)) \<and> currentProviderId config = Some ident
              then None else currentProviderId config)\<rparr>"
      "ident \<notin> set (map id' (providers config)) \<longrightarrow>
            files w' = files w \<and> temporary_names (trace w') = temporary_names (trace w)"
      "ident \<in> set (map id' (providers config)) \<longrightarrow>
            temporary_names (trace w') = temporary_names (trace w) @
              [tmpPath ''.providers.json.tmp.'' CONFIG_FILE (clock w (ticks w))]"
    by blast
  have gone: "ident \<notin> set (map id' (providers
          \<lparr>providers = filter (\<lambda>p. id' p \<noteq> ident) (providers config),
           currentProviderId =
             (if ident \<in> set (map id' (providers config)) \<and> currentProviderId config = Some ident
              then None else currentProviderId config)\<rparr>))"
    by auto
  from removeProvider_once[OF first(2,3), of ident] gone obtain w''
    where "removeProvider ident w' = (Inr False, w'')" "files w'' = files w'"
      "stored_config w'' = stored_config w'"
    using first(3) by (auto simp add: filter_all)
  with first show ?thesis
    by blast
qed

theorem removeProvider_reports_and_clears_witness:
  "fst (removeProvider ''P1'' installed) = Inr True
   \<and> stored_config (snd (removeProvider ''P1'' installed))
       = Some \<lparr>providers = [P2], currentProviderId = None\<rparr>
   \<and> fst (removeProvider ''P1'' (snd (removeProvider ''P1'' installed))) = Inr False
   \<and> stored_config (snd (removeProvider ''P1'' (snd (removeProvider ''P1'' installed))))
       = Some \<lparr>providers = [P2], currentProviderId = None\<rparr>"
proof -
  have stored: "''P1'' \<in> set (map id' (providers \<lparr>providers = [P1, P2],
      currentProviderId = Some ''P1''\<rparr>))"
    by (simp add: P1_def)
  have rest: "filter (\<lambda>p. id' p \<noteq> ''P1'') [P1, P2] = [P2]"
    by (simp add: P1_def P2_def)
  from removeProvider_reports_and_clears
    [OF installed_simps(1) stored_config_installed, of "''P1''"] stored rest
  show ?thesis
    by auto
qed



section \<open>Adding providers\<close>

text \<open>
  Claim C6 says that \<open>N\<close> calls of \<^verbatim>\<open>addProvider\<close> in quick succession always yield \<open>N\<close>
  distinct ids, and the source documents \<^verbatim>\<open>generateId\<close> with \<^verbatim>\<open>Generate a unique ID\<close>.  The
  function does not do that: the id is \<^verbatim>\<open>Date.now()\<close>, a hyphen and seven characters of
  \<^verbatim>\<open>Math.random()\<close>, and nothing compares it with the ids already stored.  The code at a
  failing input: two calls on a machine whose clock stands at 1700000000000 and whose
  random source repeats \<^verbatim>\<open>k3x9q2a\<close> return the same id twice, and the store then holds two
  providers with that one id.
\<close>

theorem addProvider_ids_collide:
  "fst (await (addMany [new_work, new_home]) (\<lambda>added. return (map id' added)) first_run)
     = Inr [''1700000000000-k3x9q2a'', ''1700000000000-k3x9q2a'']
   \<and> map_option (\<lambda>config. map id' (providers config))
         (stored_config (snd (addMany [new_work, new_home] first_run)))
     = Some [''1700000000000-k3x9q2a'', ''1700000000000-k3x9q2a'']"
proof -
  from addMany_ids[OF no_faults_first_run first_run_simps(1), of "[new_work, new_home]"]
  obtain w' added where "addMany [new_work, new_home] first_run = (Inr added, w')"
    and "map id' added = [''1700000000000-k3x9q2a'', ''1700000000000-k3x9q2a'']"
    and "stored_config w' = Some \<lparr>providers = added, currentProviderId = None\<rparr>"
    by (auto simp add: decimal_example)
  then show ?thesis
    by (simp add: await_def return_def)
qed

text \<open>
  What the scheme does achieve.  \<open>N\<close> calls of \<^verbatim>\<open>addProvider\<close> in succession (on a store
  that can be read, with no failing file-system call) succeed and append \<open>N\<close> providers;
  the id of the \<open>k\<close>-th is the \<^verbatim>\<open>Date.now()\<close> it read, a hyphen and the random characters it
  drew; and the \<open>N\<close> ids are pairwise distinct exactly when no two of the calls had both the
  same \<^verbatim>\<open>Date.now()\<close> and the same random characters.  This bounds the defect; it is not
  the uniqueness that the comment and the spec ask for.
\<close>

theorem addProvider_ids_distinct_if_readings_differ:
  assumes "no_faults w" and "stored_config w = Some config"
  shows "\<exists>w' added. addMany new w = (Inr added, w')
      \<and> map id' added
          = map (\<lambda>k. decimal (clock w (ticks w + 3 * k)) @ ''-'' @ random36 w (draws w + k))
              [0..<length new]
      \<and> (distinct (map id' added) \<longleftrightarrow>
           distinct (map (\<lambda>k. (clock w (ticks w + 3 * k), random36 w (draws w + k)))
              [0..<length new]))
      \<and> stored_config w' = Some (config\<lparr>providers := providers config @ added\<rparr>)"
proof -
  from addMany_ids[OF assms, of new] obtain w' added where result: "addMany new w = (Inr added, w')"
      "map id' added
          = map (\<lambda>k. decimal (clock w (ticks w + 3 * k)) @ ''-'' @ random36 w (draws w + k))
              [0..<length new]"
      "stored_config w' = Some (config\<lparr>providers := providers config @ added\<rparr>)"
    by blast
  have "map id' added = map (\<lambda>(t, r). decimal t @ ''-'' @ r)
      (map (\<lambda>k. (clock w (ticks w + 3 * k), random36 w (draws w + k))) [0..<length new])"
    using result(2) by simp
  then have "distinct (map id' added) \<longleftrightarrow>
      distinct (map (\<lambda>k. (clock w (ticks w + 3 * k), random36 w (draws w + k))) [0..<length new])"
    using inj_generated_id by (simp only: distinct_map) (auto intro: inj_on_subset)
  with result show ?thesis
    by blast
qed

theorem addProvider_ids_distinct_if_readings_differ_witness:
  "fst (await (addMany [new_work, new_home]) (\<lambda>added. return (distinct (map id' added))) ticking)
     = Inr True"
proof -
  from addProvider_ids_distinct_if_readings_differ
    [OF ticking_simps(1,2), of "[new_work, new_home]"]
  obtain w' added where "addMany [new_work, new_home] ticking = (Inr added, w')"
    and "distinct (map id' added)"
    by auto
  then show ?thesis
    by (simp add: await_def return_def)
qed

end
